theory Spec2Isabelle
  imports Main "HOL-Library.Word"
begin

unbundle bit_operations_syntax

section \<open>Machine types, error values and kernel helpers\<close>

text \<open>
  The driver \<^verbatim>\<open>drivers/hwmon/ltc4282.c\<close> is modelled for an LP64 kernel: \<^verbatim>\<open>long\<close> and
  \<^verbatim>\<open>unsigned long\<close> are 64 bits wide, \<^verbatim>\<open>int\<close> and \<^verbatim>\<open>u32\<close> are 32 bits wide. Unsigned
  arithmetic wraps around, which is what arithmetic on \<open>'a word\<close> does. A value stored
  through \<^verbatim>\<open>long *val\<close> is kept as the 64-bit pattern; \<open>sint\<close> reads it as the signed number.
\<close>

type_synonym u8 = "8 word"
type_synonym u16 = "16 word"
type_synonym u32 = "32 word"
type_synonym u64 = "64 word"

text \<open>
  Every way in which a driver function can end without a value: the negative errno codes
  the source returns, the divide trap of the CPU, the use of a local variable that was
  never assigned, and an array access outside the array.
\<close>

datatype error =
    EINVAL | ETIMEDOUT | ENOTSUPP | EIO | EREMOTEIO | ENODEV
  | DIVIDE_ERROR | UNINITIALIZED | OUT_OF_BOUNDS

text \<open>
  Modelled from the spec: the unit constants of \<^verbatim>\<open>linux/units.h\<close> and the limits of
  \<^verbatim>\<open>linux/limits.h\<close> are not part of the driver
  source. The spec names the factors (multiply by 10 because
  the sense resistance is stored in tenths of a micro-ohm, \<open>1_000_000\<close> for micro, codes
  are divided by 65535 and 255). \<^verbatim>\<open>DECA\<close>, \<^verbatim>\<open>CENTI\<close>, \<^verbatim>\<open>MILLI\<close> and \<^verbatim>\<open>MICRO\<close> are
  \<^verbatim>\<open>unsigned long\<close> constants.
\<close>

definition DECA :: u64 where "DECA = 10"
definition MILLI :: u64 where "MILLI = 1000"
definition MICRO :: u64 where "MICRO = 1000000"
definition U8_MAX :: u8 where "U8_MAX = 255"
definition U16_MAX :: u16 where "U16_MAX = 65535"

text \<open>
  Modelled from the spec: \<^verbatim>\<open>DIV_ROUND_CLOSEST_ULL(x, divisor)\<close> of \<^verbatim>\<open>linux/math.h\<close> is not
  part of the driver source; it is the spec's \<open>round(x / divisor)\<close> on unsigned 64-bit operands. The
  macro adds half of the divisor to \<open>x\<close> in 64-bit arithmetic and divides with
  \<^verbatim>\<open>do_div\<close>, whose divisor is a 32-bit value: a divisor wider than 32 bits is cut to its
  low 32 bits. The argument \<open>d\<close> is the divisor as the C expression evaluates it, zero
  extended to 64 bits. Dividing by zero traps.
\<close>

definition DIV_ROUND_CLOSEST_ULL :: "u64 \<Rightarrow> u64 \<Rightarrow> error + u64" where
  "DIV_ROUND_CLOSEST_ULL x d =
     (let tmp = x + d div 2;
          base = (ucast d :: u32)
      in if base = 0 then Inl DIVIDE_ERROR else Inr (tmp div ucast base))"

text \<open>
  Modelled from the spec: \<^verbatim>\<open>DIV_ROUND_CLOSEST(x, divisor)\<close> of \<^verbatim>\<open>linux/math.h\<close> is not part
  of the driver source; for unsigned operands of one width it is \<open>(x + divisor / 2) / divisor\<close> in that
  width, the spec's \<open>round\<close>.
\<close>

definition DIV_ROUND_CLOSEST :: "'a::len word \<Rightarrow> 'a word \<Rightarrow> error + 'a word" where
  "DIV_ROUND_CLOSEST x d =
     (if d = 0 then Inl DIVIDE_ERROR else Inr ((x + d div 2) div d))"

text \<open>
  Modelled from the spec: \<^verbatim>\<open>int_pow(base, exp)\<close> of \<^verbatim>\<open>linux/math.h\<close> is not part of the
  driver source; it is the power in wrapping 64-bit arithmetic.
\<close>

definition int_pow :: "u64 \<Rightarrow> nat \<Rightarrow> u64" where
  "int_pow base exp = base ^ exp"

text \<open>
  Modelled from the spec: \<^verbatim>\<open>check_mul_overflow(a, b, d)\<close> of \<^verbatim>\<open>linux/overflow.h\<close> is not
  part of the driver source; it is the spec's attempt of the full-precision multiply. It reports whether
  the 64-bit product overflows and stores the wrapped product through \<open>d\<close> in either
  case. The pair is (overflowed, value stored through \<open>d\<close>).
\<close>

definition check_mul_overflow :: "u64 \<Rightarrow> u64 \<Rightarrow> bool \<times> u64" where
  "check_mul_overflow a b = (2 ^ 64 \<le> unat a * unat b, a * b)"

text \<open>
  Modelled from the spec: \<^verbatim>\<open>ffs\<close> (\<^verbatim>\<open>linux/bitops.h\<close>) is not part of the driver source;
  it is the one-based position of the lowest set bit, 0 for 0. It gives the shift of the source's
  \<^verbatim>\<open>LTC4282_FIELD_PREP\<close> and of \<^verbatim>\<open>FIELD_PREP\<close>.
\<close>

fun ffs_from :: "nat \<Rightarrow> nat \<Rightarrow> u32 \<Rightarrow> nat" where
  "ffs_from 0 i m = 0"
| "ffs_from (Suc n) i m = (if bit m i then Suc i else ffs_from n (Suc i) m)"

definition ffs :: "u32 \<Rightarrow> nat" where
  "ffs m = ffs_from 32 0 m"

definition LTC4282_FIELD_PREP :: "u32 \<Rightarrow> u32 \<Rightarrow> u32" where
  "LTC4282_FIELD_PREP m v = push_bit (ffs m - 1) v AND m"

section \<open>The register map\<close>

text \<open>
  Modelled from the spec: the regmap API (\<^verbatim>\<open>linux/regmap.h\<close>) is not part of the driver
  source. The spec describes the transport as a synchronous byte-oriented read or write at a register
  address that fails on a bus error, and reserved addresses as neither readable nor
  writable. The device is a map from register address to byte; \<open>nak\<close> marks the
  addresses at which the bus transfer fails. An access beyond \<^verbatim>\<open>max_register\<close> or to a
  register the configuration's predicate excludes fails with \<open>EIO\<close>.
\<close>

record regmap =
  regs :: "u32 \<Rightarrow> u8"
  nak :: "u32 \<Rightarrow> bool"

definition LTC4282_CTRL_LSB :: u32 where "LTC4282_CTRL_LSB = 0x00"
definition LTC4282_CTRL_MSB :: u32 where "LTC4282_CTRL_MSB = 0x01"
definition LTC4282_ADC_ALERT_LOG :: u32 where "LTC4282_ADC_ALERT_LOG = 0x05"
definition LTC4282_FET_BAD_FAULT_TIMEOUT :: u32 where "LTC4282_FET_BAD_FAULT_TIMEOUT = 0x06"
definition LTC4282_GPIO_CONFIG :: u32 where "LTC4282_GPIO_CONFIG = 0x07"
definition LTC4282_VGPIO_MIN :: u32 where "LTC4282_VGPIO_MIN = 0x08"
definition LTC4282_VGPIO_MAX :: u32 where "LTC4282_VGPIO_MAX = 0x09"
definition LTC4282_VSOURCE_MIN :: u32 where "LTC4282_VSOURCE_MIN = 0x0a"
definition LTC4282_VSOURCE_MAX :: u32 where "LTC4282_VSOURCE_MAX = 0x0b"
definition LTC4282_VSENSE_MIN :: u32 where "LTC4282_VSENSE_MIN = 0x0c"
definition LTC4282_VSENSE_MAX :: u32 where "LTC4282_VSENSE_MAX = 0x0d"
definition LTC4282_POWER_MIN :: u32 where "LTC4282_POWER_MIN = 0x0e"
definition LTC4282_POWER_MAX :: u32 where "LTC4282_POWER_MAX = 0x0f"
definition LTC4282_CLK_DIV :: u32 where "LTC4282_CLK_DIV = 0x10"
definition LTC4282_ILIM_ADJUST :: u32 where "LTC4282_ILIM_ADJUST = 0x11"
definition LTC4282_ENERGY :: u32 where "LTC4282_ENERGY = 0x12"
definition LTC4282_TIME_COUNTER :: u32 where "LTC4282_TIME_COUNTER = 0x18"
definition LTC4282_ALERT_CTRL :: u32 where "LTC4282_ALERT_CTRL = 0x1C"
definition LTC4282_ADC_CTRL :: u32 where "LTC4282_ADC_CTRL = 0x1D"
definition LTC4282_STATUS_LSB :: u32 where "LTC4282_STATUS_LSB = 0x1E"
definition LTC4282_STATUS_MSB :: u32 where "LTC4282_STATUS_MSB = 0x1F"
definition LTC4282_RESERVED_1 :: u32 where "LTC4282_RESERVED_1 = 0x32"
definition LTC4282_RESERVED_2 :: u32 where "LTC4282_RESERVED_2 = 0x33"
definition LTC4282_VGPIO :: u32 where "LTC4282_VGPIO = 0x34"
definition LTC4282_VGPIO_LOWEST :: u32 where "LTC4282_VGPIO_LOWEST = 0x36"
definition LTC4282_VGPIO_HIGHEST :: u32 where "LTC4282_VGPIO_HIGHEST = 0x38"
definition LTC4282_VSOURCE :: u32 where "LTC4282_VSOURCE = 0x3a"
definition LTC4282_VSOURCE_LOWEST :: u32 where "LTC4282_VSOURCE_LOWEST = 0x3c"
definition LTC4282_VSOURCE_HIGHEST :: u32 where "LTC4282_VSOURCE_HIGHEST = 0x3e"
definition LTC4282_VSENSE :: u32 where "LTC4282_VSENSE = 0x40"
definition LTC4282_VSENSE_LOWEST :: u32 where "LTC4282_VSENSE_LOWEST = 0x42"
definition LTC4282_VSENSE_HIGHEST :: u32 where "LTC4282_VSENSE_HIGHEST = 0x44"
definition LTC4282_POWER :: u32 where "LTC4282_POWER = 0x46"
definition LTC4282_POWER_LOWEST :: u32 where "LTC4282_POWER_LOWEST = 0x48"
definition LTC4282_POWER_HIGHEST :: u32 where "LTC4282_POWER_HIGHEST = 0x4a"
definition LTC4282_RESERVED_3 :: u32 where "LTC4282_RESERVED_3 = 0x50"

definition ltc4282_readable_reg :: "u32 \<Rightarrow> bool" where
  "ltc4282_readable_reg reg =
     (if reg = LTC4282_RESERVED_1 \<or> reg = LTC4282_RESERVED_2 then False else True)"

definition ltc4282_writable_reg :: "u32 \<Rightarrow> bool" where
  "ltc4282_writable_reg reg =
     (if reg = LTC4282_STATUS_LSB \<or> reg = LTC4282_STATUS_MSB then False
      else if reg = LTC4282_RESERVED_1 \<or> reg = LTC4282_RESERVED_2 then False
      else True)"

definition regmap_read :: "regmap \<Rightarrow> u32 \<Rightarrow> error + u32" where
  "regmap_read m reg =
     (if LTC4282_RESERVED_3 < reg \<or> \<not> ltc4282_readable_reg reg then Inl EIO
      else if nak m reg then Inl EREMOTEIO
      else Inr (ucast (regs m reg)))"

definition regmap_write :: "regmap \<Rightarrow> u32 \<Rightarrow> u32 \<Rightarrow> error + regmap" where
  "regmap_write m reg val =
     (if LTC4282_RESERVED_3 < reg \<or> \<not> ltc4282_writable_reg reg then Inl EIO
      else if nak m reg then Inl EREMOTEIO
      else Inr (m\<lparr>regs := (regs m)(reg := ucast val)\<rparr>))"

text \<open>
  \<^verbatim>\<open>regmap_update_bits\<close> reads the register, replaces the bits of the mask and writes
  the register back when its value changes; \<^verbatim>\<open>regmap_set_bits\<close> and
  \<^verbatim>\<open>regmap_clear_bits\<close> are the two special cases.
\<close>

definition regmap_update_bits :: "regmap \<Rightarrow> u32 \<Rightarrow> u32 \<Rightarrow> u32 \<Rightarrow> error + regmap" where
  "regmap_update_bits m reg msk val =
     (case regmap_read m reg of
        Inl e \<Rightarrow> Inl e
      | Inr orig \<Rightarrow>
          (let tmp = (orig AND NOT msk) OR (val AND msk)
           in if tmp \<noteq> orig then regmap_write m reg tmp else Inr m))"

definition regmap_set_bits :: "regmap \<Rightarrow> u32 \<Rightarrow> u32 \<Rightarrow> error + regmap" where
  "regmap_set_bits m reg bits = regmap_update_bits m reg bits bits"

definition regmap_clear_bits :: "regmap \<Rightarrow> u32 \<Rightarrow> u32 \<Rightarrow> error + regmap" where
  "regmap_clear_bits m reg bits = regmap_update_bits m reg bits 0"

text \<open>\<^verbatim>\<open>regmap_bulk_read\<close> of \<open>n\<close> bytes reads \<open>n\<close> consecutive registers, lowest address first.\<close>

fun regmap_bulk_read :: "regmap \<Rightarrow> u32 \<Rightarrow> nat \<Rightarrow> error + u8 list" where
  "regmap_bulk_read m reg 0 = Inr []"
| "regmap_bulk_read m reg (Suc n) =
     (case regmap_read m reg of
        Inl e \<Rightarrow> Inl e
      | Inr b \<Rightarrow>
          (case regmap_bulk_read m (reg + 1) n of
             Inl e \<Rightarrow> Inl e
           | Inr bs \<Rightarrow> Inr (ucast b # bs)))"

text \<open>
  \<^verbatim>\<open>le16_to_cpu\<close>, \<^verbatim>\<open>le32_to_cpu\<close> and \<^verbatim>\<open>le64_to_cpu\<close> read a buffer with the least
  significant byte first.
\<close>

fun le_to_cpu :: "u8 list \<Rightarrow> u64" where
  "le_to_cpu [] = 0"
| "le_to_cpu (b # bs) = ucast b + 256 * le_to_cpu bs"

definition le16_to_cpu :: "u8 list \<Rightarrow> u16" where
  "le16_to_cpu bs = ucast (le_to_cpu (take 2 bs))"

definition le32_to_cpu :: "u8 list \<Rightarrow> u32" where
  "le32_to_cpu bs = ucast (le_to_cpu (take 4 bs))"

definition le64_to_cpu :: "u8 list \<Rightarrow> u64" where
  "le64_to_cpu bs = le_to_cpu (take 8 bs)"

section \<open>Driver state\<close>

record ltc4282_state =
  map_r :: regmap
  gpio_map :: "u32 list"
  rsense :: u32
  vin_mode :: u32
  vfs_out :: u16
  vdd_monitor :: bool

definition LTC4282_VIN_12V :: u32 where "LTC4282_VIN_12V = 2"
definition LTC4282_VIN_24V :: u32 where "LTC4282_VIN_24V = 3"

definition LTC4282_CHAN_VSOURCE :: u32 where "LTC4282_CHAN_VSOURCE = 0"
definition LTC4282_CHAN_VGPIO :: u32 where "LTC4282_CHAN_VGPIO = 1"
definition LTC4282_CHAN_VFET :: u32 where "LTC4282_CHAN_VFET = 2"
definition LTC4282_CHAN_VDD :: u32 where "LTC4282_CHAN_VDD = 3"

text \<open>This maps the Vout full scale for the given Vin mode.\<close>

definition ltc4282_vfs_milli :: "u16 list" where
  "ltc4282_vfs_milli = [5540, 8320, 16640, 33280]"

section \<open>GPIO pins\<close>

record ltc4282_gpio =
  out_reg :: u32
  out_mask :: u32
  in_reg :: u32
  in_mask :: u32
  active_high :: bool
  n_funcs :: u8

definition LTC4282_GPIO_NR :: nat where "LTC4282_GPIO_NR = 4"

definition LTC4282_GPIO_1 :: u32 where "LTC4282_GPIO_1 = 0"
definition LTC4282_GPIO_2 :: u32 where "LTC4282_GPIO_2 = 1"
definition LTC4282_GPIO_3 :: u32 where "LTC4282_GPIO_3 = 2"
definition LTC4282_ALERT :: u32 where "LTC4282_ALERT = 3"

definition LTC4282_GPIO_2_FET_STRESS_MASK :: u32 where "LTC4282_GPIO_2_FET_STRESS_MASK = push_bit 1 1"
definition LTC4282_GPIO_1_OUT_MASK :: u32 where "LTC4282_GPIO_1_OUT_MASK = push_bit 3 1"
definition LTC4282_GPIO_1_CONFIG_MASK :: u32 where "LTC4282_GPIO_1_CONFIG_MASK = 0x30"
definition LTC4282_GPIO_2_OUT_MASK :: u32 where "LTC4282_GPIO_2_OUT_MASK = push_bit 6 1"
definition LTC4282_GPIO_3_OUT_MASK :: u32 where "LTC4282_GPIO_3_OUT_MASK = push_bit 7 1"
definition LTC4282_ALERT_OUT_MASK :: u32 where "LTC4282_ALERT_OUT_MASK = push_bit 6 1"
definition LTC4282_ALERT_STATUS_MASK :: u32 where "LTC4282_ALERT_STATUS_MASK = push_bit 4 1"
definition LTC4282_GPIO_1_STATUS_MASK :: u32 where "LTC4282_GPIO_1_STATUS_MASK = push_bit 5 1"
definition LTC4282_GPIO_2_STATUS_MASK :: u32 where "LTC4282_GPIO_2_STATUS_MASK = push_bit 6 1"
definition LTC4282_GPIO_3_STATUS_MASK :: u32 where "LTC4282_GPIO_3_STATUS_MASK = push_bit 7 1"

text \<open>
  The table of the four pins. A field the source's initialiser leaves out is zero:
  \<open>active_high\<close> is false for GPIO2, GPIO3 and ALERT, \<open>n_funcs\<close> is 0 for ALERT.
\<close>

definition ltc4282_gpios :: "ltc4282_gpio list" where
  "ltc4282_gpios =
     [\<lparr>out_reg = LTC4282_GPIO_CONFIG, out_mask = LTC4282_GPIO_1_OUT_MASK,
       in_reg = LTC4282_STATUS_MSB, in_mask = LTC4282_GPIO_1_STATUS_MASK,
       active_high = True, n_funcs = 3\<rparr>,
      \<lparr>out_reg = LTC4282_GPIO_CONFIG, out_mask = LTC4282_GPIO_2_OUT_MASK,
       in_reg = LTC4282_STATUS_MSB, in_mask = LTC4282_GPIO_2_STATUS_MASK,
       active_high = False, n_funcs = 3\<rparr>,
      \<lparr>out_reg = LTC4282_GPIO_CONFIG, out_mask = LTC4282_GPIO_3_OUT_MASK,
       in_reg = LTC4282_STATUS_MSB, in_mask = LTC4282_GPIO_3_STATUS_MASK,
       active_high = False, n_funcs = 2\<rparr>,
      \<lparr>out_reg = LTC4282_ALERT_CTRL, out_mask = LTC4282_ALERT_OUT_MASK,
       in_reg = LTC4282_STATUS_MSB, in_mask = LTC4282_ALERT_STATUS_MASK,
       active_high = False, n_funcs = 0\<rparr>]"

text \<open>
  \<^verbatim>\<open>st->gpio_map[offset]\<close> followed by \<^verbatim>\<open>&ltc4282_gpios[gpio_pin]\<close>: the pin number and
  its table entry. An index outside either array is an access outside the array.
\<close>

definition gpio_lookup :: "ltc4282_state \<Rightarrow> nat \<Rightarrow> error + (u32 \<times> ltc4282_gpio)" where
  "gpio_lookup st offset =
     (if offset < length (gpio_map st) \<and> offset < LTC4282_GPIO_NR then
        (let gpio_pin = gpio_map st ! offset
         in if unat gpio_pin < length ltc4282_gpios
            then Inr (gpio_pin, ltc4282_gpios ! unat gpio_pin)
            else Inl OUT_OF_BOUNDS)
      else Inl OUT_OF_BOUNDS)"

text \<open>
  \<^verbatim>\<open>ltc4282_gpio_set\<close> returns nothing and ignores the result of the register update:
  when the update fails the device is left as it was. \<open>val\<close> is the caller's \<^verbatim>\<open>int\<close>
  as a 32-bit pattern; \<^verbatim>\<open>!val\<close> is 1 for 0 and 0 otherwise.
\<close>

definition ltc4282_gpio_set :: "ltc4282_state \<Rightarrow> nat \<Rightarrow> u32 \<Rightarrow> error + ltc4282_state" where
  "ltc4282_gpio_set st offset val =
     (case gpio_lookup st offset of
        Inl e \<Rightarrow> Inl e
      | Inr (gpio_pin, gpio) \<Rightarrow>
          (let val' = (if \<not> active_high gpio then (if val = 0 then 1 else 0) else val)
           in case regmap_update_bits (map_r st) (out_reg gpio) (out_mask gpio)
                     (LTC4282_FIELD_PREP (out_mask gpio) val') of
                Inl e \<Rightarrow> Inr st
              | Inr m \<Rightarrow> Inr (st\<lparr>map_r := m\<rparr>)))"

definition ltc4282_gpio_get :: "ltc4282_state \<Rightarrow> nat \<Rightarrow> error + u32" where
  "ltc4282_gpio_get st offset =
     (case gpio_lookup st offset of
        Inl e \<Rightarrow> Inl e
      | Inr (gpio_pin, gpio) \<Rightarrow>
          (case regmap_read (map_r st) (in_reg gpio) of
             Inl e \<Rightarrow> Inl e
           | Inr val \<Rightarrow> Inr (if val AND in_mask gpio \<noteq> 0 then 1 else 0)))"

section \<open>Reading voltages\<close>

definition ltc4282_read_voltage_word :: "ltc4282_state \<Rightarrow> u32 \<Rightarrow> u32 \<Rightarrow> error + u64" where
  "ltc4282_read_voltage_word st reg fs =
     (case regmap_bulk_read (map_r st) reg 2 of
        Inl e \<Rightarrow> Inl e
      | Inr in_buf \<Rightarrow>
          DIV_ROUND_CLOSEST_ULL (ucast (le16_to_cpu in_buf) * ucast fs) (ucast U16_MAX))"

definition ltc4282_read_voltage_byte :: "ltc4282_state \<Rightarrow> u32 \<Rightarrow> u32 \<Rightarrow> error + u64" where
  "ltc4282_read_voltage_byte st reg fs =
     (case regmap_read (map_r st) reg of
        Inl e \<Rightarrow> Inl e
      | Inr in_val \<Rightarrow>
          (case DIV_ROUND_CLOSEST (in_val * fs) (ucast U8_MAX) of
             Inl e \<Rightarrow> Inl e
           | Inr v \<Rightarrow> Inr (ucast v)))"

text \<open>Alarm and status bits (\<^verbatim>\<open>BIT(n)\<close> masks of the source).\<close>

definition LTC4282_GPIO_ALARM_H_MASK :: u32 where "LTC4282_GPIO_ALARM_H_MASK = push_bit 0 1"
definition LTC4282_GPIO_ALARM_L_MASK :: u32 where "LTC4282_GPIO_ALARM_L_MASK = push_bit 1 1"
definition LTC4282_VSOURCE_ALARM_H_MASK :: u32 where "LTC4282_VSOURCE_ALARM_H_MASK = push_bit 2 1"
definition LTC4282_VSOURCE_ALARM_L_MASK :: u32 where "LTC4282_VSOURCE_ALARM_L_MASK = push_bit 3 1"
definition LTC4282_VSENSE_ALARM_H_MASK :: u32 where "LTC4282_VSENSE_ALARM_H_MASK = push_bit 4 1"
definition LTC4282_VSENSE_ALARM_L_MASK :: u32 where "LTC4282_VSENSE_ALARM_L_MASK = push_bit 5 1"
definition LTC4282_POWER_ALARM_H_MASK :: u32 where "LTC4282_POWER_ALARM_H_MASK = push_bit 6 1"
definition LTC4282_POWER_ALARM_L_MASK :: u32 where "LTC4282_POWER_ALARM_L_MASK = push_bit 7 1"
definition LTC4282_OV_STATUS_MASK :: u32 where "LTC4282_OV_STATUS_MASK = push_bit 0 1"
definition LTC4282_UV_STATUS_MASK :: u32 where "LTC4282_UV_STATUS_MASK = push_bit 1 1"
definition LTC4282_VDD_STATUS_MASK :: u32 where
  "LTC4282_VDD_STATUS_MASK = LTC4282_OV_STATUS_MASK OR LTC4282_UV_STATUS_MASK"
definition LTC4282_OC_STATUS_MASK :: u32 where "LTC4282_OC_STATUS_MASK = push_bit 2 1"
definition LTC4282_FET_BAD_STATUS_MASK :: u32 where "LTC4282_FET_BAD_STATUS_MASK = push_bit 6 1"

definition ltc4282_read_alarm :: "ltc4282_state \<Rightarrow> u32 \<Rightarrow> u32 \<Rightarrow> error + u64" where
  "ltc4282_read_alarm st reg msk =
     (case regmap_read (map_r st) reg of
        Inl e \<Rightarrow> Inl e
      | Inr alarm \<Rightarrow> Inr (if alarm AND msk \<noteq> 0 then 1 else 0))"

text \<open>
  Modelled from the spec: \<^verbatim>\<open>enum hwmon_in_attributes\<close> of \<^verbatim>\<open>linux/hwmon.h\<close> is not part
  of the driver source; the spec lists the input, highest, lowest, max, min and alarm sub-attributes of a
  channel. The enumerators the driver does not handle fall to its \<^verbatim>\<open>default\<close> branch.
\<close>

datatype hwmon_in_attributes =
    hwmon_in_enable | hwmon_in_input | hwmon_in_min | hwmon_in_max | hwmon_in_lcrit
  | hwmon_in_crit | hwmon_in_average | hwmon_in_lowest | hwmon_in_highest
  | hwmon_in_reset_history | hwmon_in_label | hwmon_in_alarm | hwmon_in_min_alarm
  | hwmon_in_max_alarm | hwmon_in_lcrit_alarm | hwmon_in_crit_alarm
  | hwmon_in_rated_min | hwmon_in_rated_max | hwmon_in_fault

definition ltc4282_read_in :: "ltc4282_state \<Rightarrow> hwmon_in_attributes \<Rightarrow> u32 \<Rightarrow> error + u64" where
  "ltc4282_read_in st attr channel =
     (case attr of
        hwmon_in_input \<Rightarrow>
          if channel = LTC4282_CHAN_VSOURCE
          then ltc4282_read_voltage_word st LTC4282_VSOURCE (ucast (vfs_out st))
          else ltc4282_read_voltage_word st LTC4282_VGPIO 1280
      | hwmon_in_highest \<Rightarrow>
          if channel = LTC4282_CHAN_VSOURCE
          then ltc4282_read_voltage_word st LTC4282_VSOURCE_HIGHEST (ucast (vfs_out st))
          else ltc4282_read_voltage_word st LTC4282_VGPIO_HIGHEST 1280
      | hwmon_in_lowest \<Rightarrow>
          if channel = LTC4282_CHAN_VSOURCE
          then ltc4282_read_voltage_word st LTC4282_VSOURCE_LOWEST (ucast (vfs_out st))
          else ltc4282_read_voltage_word st LTC4282_VGPIO_LOWEST 1280
      | hwmon_in_max_alarm \<Rightarrow>
          if channel = LTC4282_CHAN_VSOURCE
          then ltc4282_read_alarm st LTC4282_ADC_ALERT_LOG LTC4282_VSOURCE_ALARM_H_MASK
          else ltc4282_read_alarm st LTC4282_ADC_ALERT_LOG LTC4282_GPIO_ALARM_H_MASK
      | hwmon_in_min_alarm \<Rightarrow>
          if channel = LTC4282_CHAN_VSOURCE
          then ltc4282_read_alarm st LTC4282_ADC_ALERT_LOG LTC4282_VSOURCE_ALARM_L_MASK
          else ltc4282_read_alarm st LTC4282_ADC_ALERT_LOG LTC4282_GPIO_ALARM_L_MASK
      | hwmon_in_crit_alarm \<Rightarrow>
          ltc4282_read_alarm st LTC4282_STATUS_LSB LTC4282_OV_STATUS_MASK
      | hwmon_in_lcrit_alarm \<Rightarrow>
          if channel = LTC4282_CHAN_VFET
          then ltc4282_read_alarm st LTC4282_STATUS_LSB LTC4282_FET_BAD_STATUS_MASK
          else ltc4282_read_alarm st LTC4282_STATUS_LSB LTC4282_UV_STATUS_MASK
      | hwmon_in_max \<Rightarrow>
          if channel = LTC4282_CHAN_VSOURCE
          then ltc4282_read_voltage_byte st LTC4282_VSOURCE_MAX (ucast (vfs_out st))
          else ltc4282_read_voltage_byte st LTC4282_VGPIO_MAX 1280
      | hwmon_in_min \<Rightarrow>
          if channel = LTC4282_CHAN_VSOURCE
          then ltc4282_read_voltage_byte st LTC4282_VSOURCE_MAX (ucast (vfs_out st))
          else ltc4282_read_voltage_byte st LTC4282_VGPIO_MAX 1280
      | _ \<Rightarrow> Inl ENOTSUPP)"

section \<open>Reading power\<close>

definition ltc4282_read_power_byte :: "ltc4282_state \<Rightarrow> u32 \<Rightarrow> error + u64" where
  "ltc4282_read_power_byte st reg =
     (case regmap_read (map_r st) reg of
        Inl e \<Rightarrow> Inl e
      | Inr pwr \<Rightarrow>
          (let temp = ucast (pwr * 40) * DECA * ucast (vfs_out st) * 256
           in DIV_ROUND_CLOSEST_ULL (temp * MICRO)
                (int_pow (ucast U8_MAX) 2 * ucast (rsense st))))"

text \<open>
  \<^verbatim>\<open>ltc4282_read_power_word\<close>. The two branches are given as functions of the code and
  of the value the variable \<open>temp\<close> holds when the branch is entered;
  \<^verbatim>\<open>check_mul_overflow\<close> has stored the wrapped product there.
\<close>

definition read_power_word_fallback :: "ltc4282_state \<Rightarrow> u64 \<Rightarrow> u64 \<Rightarrow> error + u64" where
  "read_power_word_fallback st pwr temp =
     (case DIV_ROUND_CLOSEST_ULL (pwr * temp) (ucast U16_MAX) of
        Inl e \<Rightarrow> Inl e
      | Inr temp' \<Rightarrow>
          DIV_ROUND_CLOSEST_ULL (temp' * MICRO) (ucast (ucast U16_MAX * rsense st :: u32)))"

definition read_power_word_fast :: "ltc4282_state \<Rightarrow> u64 \<Rightarrow> u64 \<Rightarrow> error + u64" where
  "read_power_word_fast st pwr temp =
     DIV_ROUND_CLOSEST_ULL (pwr * temp * MICRO)
       (ucast (rsense st) * int_pow (ucast U16_MAX) 2)"

definition ltc4282_read_power_word :: "ltc4282_state \<Rightarrow> u32 \<Rightarrow> error + u64" where
  "ltc4282_read_power_word st reg =
     (let temp = DECA * 40 * ucast (vfs_out st) * push_bit 16 1
      in case regmap_bulk_read (map_r st) reg 2 of
           Inl e \<Rightarrow> Inl e
         | Inr buf \<Rightarrow>
             (let pwr = (ucast (le16_to_cpu buf) :: u64);
                  (ovf, temp') = check_mul_overflow (pwr * temp) MICRO
              in if ovf then read_power_word_fallback st pwr temp'
                 else read_power_word_fast st pwr temp'))"

section \<open>Reading energy and average power\<close>

text \<open>
  \<^verbatim>\<open>ltc4282_read_energy\<close>. The two branches are given as functions of the 48-bit
  energy code; neither reads what \<^verbatim>\<open>check_mul_overflow\<close> stored.
\<close>

definition energy_factor :: "ltc4282_state \<Rightarrow> u64" where
  "energy_factor st = DECA * ucast (vfs_out st) * 40 * 256"

definition read_energy_fallback :: "ltc4282_state \<Rightarrow> u64 \<Rightarrow> error + u64" where
  "read_energy_fallback st energy =
     (case DIV_ROUND_CLOSEST (energy_factor st) (ucast U16_MAX) of
        Inl e \<Rightarrow> Inl e
      | Inr temp \<Rightarrow> DIV_ROUND_CLOSEST_ULL (temp * energy) (ucast (rsense st)))"

definition read_energy_fast :: "ltc4282_state \<Rightarrow> u64 \<Rightarrow> error + u64" where
  "read_energy_fast st energy =
     DIV_ROUND_CLOSEST_ULL (energy_factor st * energy)
       (ucast (ucast U16_MAX * rsense st :: u32))"

definition ltc4282_read_energy :: "ltc4282_state \<Rightarrow> error + u64" where
  "ltc4282_read_energy st =
     (case regmap_bulk_read (map_r st) LTC4282_ENERGY 6 of
        Inl e \<Rightarrow> Inl e
      | Inr buf \<Rightarrow>
          (let energy = le64_to_cpu buf
           in if fst (check_mul_overflow (energy_factor st) energy)
              then read_energy_fallback st energy
              else read_energy_fast st energy))"

definition LTC4282_TCONV_US :: u32 where "LTC4282_TCONV_US = 65535"

definition ltc4282_read_power_average :: "ltc4282_state \<Rightarrow> error + u64" where
  "ltc4282_read_power_average st =
     (case ltc4282_read_energy st of
        Inl e \<Rightarrow> Inl e
      | Inr energy \<Rightarrow>
          (case regmap_bulk_read (map_r st) LTC4282_TIME_COUNTER 4 of
             Inl e \<Rightarrow> Inl e
           | Inr cnt \<Rightarrow>
               if le32_to_cpu cnt = 0 then Inr 0
               else
                 (let (ovf, temp) = check_mul_overflow energy MICRO
                  in if ovf then
                       (case DIV_ROUND_CLOSEST_ULL energy (ucast LTC4282_TCONV_US) of
                          Inl e \<Rightarrow> Inl e
                        | Inr temp' \<Rightarrow>
                            DIV_ROUND_CLOSEST_ULL (temp' * MICRO) (ucast (le32_to_cpu cnt)))
                     else
                       DIV_ROUND_CLOSEST_ULL temp
                         (ucast (LTC4282_TCONV_US * le32_to_cpu cnt)))))"

section \<open>Writing thresholds\<close>

definition ltc4282_write_power_byte :: "ltc4282_state \<Rightarrow> u32 \<Rightarrow> u64 \<Rightarrow> error + ltc4282_state" where
  "ltc4282_write_power_byte st reg val =
     (let temp = val * int_pow (ucast U8_MAX) 2 * ucast (rsense st)
      in case DIV_ROUND_CLOSEST_ULL temp (MICRO * DECA * 256 * ucast (vfs_out st) * 40) of
           Inl e \<Rightarrow> Inl e
         | Inr q \<Rightarrow>
             (let pwr = (ucast q :: u32);
                  pwr' = (if pwr > ucast U8_MAX then ucast U8_MAX else pwr)
              in case regmap_write (map_r st) reg pwr' of
                   Inl e \<Rightarrow> Inl e
                 | Inr m \<Rightarrow> Inr (st\<lparr>map_r := m\<rparr>)))"

text \<open>
  \<^verbatim>\<open>ltc4282_write_voltage_byte\<close>. The local \<open>in\<close> is assigned in the first branch only:
  in the other branch the source evaluates \<^verbatim>\<open>DIV_ROUND_CLOSEST(val * U8_MAX, fs)\<close> as an
  expression statement and drops the value, so \<open>in\<close> has no value (\<open>None\<close>) when it is
  passed to \<^verbatim>\<open>regmap_write\<close>. The comparison \<^verbatim>\<open>val >= fs\<close> is between a \<^verbatim>\<open>long\<close> and a
  \<^verbatim>\<open>u32\<close>, a signed 64-bit comparison.
\<close>

definition write_voltage_byte_in :: "u32 \<Rightarrow> u64 \<Rightarrow> u32 option" where
  "write_voltage_byte_in fs val =
     (if sint (ucast fs :: u64) \<le> sint val then Some (ucast U8_MAX) else None)"

definition ltc4282_write_voltage_byte ::
  "ltc4282_state \<Rightarrow> u32 \<Rightarrow> u32 \<Rightarrow> u64 \<Rightarrow> error + ltc4282_state" where
  "ltc4282_write_voltage_byte st reg fs val =
     (case write_voltage_byte_in fs val of
        None \<Rightarrow> Inl UNINITIALIZED
      | Some in_val \<Rightarrow>
          (case regmap_write (map_r st) reg in_val of
             Inl e \<Rightarrow> Inl e
           | Inr m \<Rightarrow> Inr (st\<lparr>map_r := m\<rparr>)))"

section \<open>Power-on\<close>

text \<open>
  Modelled from the spec: \<^verbatim>\<open>regmap_read_poll_timeout\<close> and \<^verbatim>\<open>devm_regulator_get_enable\<close>
  are not part of the driver source. One poll attempt reads the status register every 10 ms for up to
  50 ms; it returns 0 as soon as an over- or under-voltage bit is seen (the supply is not
  stable), \<open>ETIMEDOUT\<close> when none was seen for the whole window (stable), or the error of
  a failed read. The environment is the return value of each attempt, in order: \<open>None\<close>
  is the return value 0.
\<close>

type_synonym poll_results = "nat \<Rightarrow> error option"

text \<open>
  The \<^verbatim>\<open>do { ... } while (n_tries--)\<close> loop from attempt \<open>i\<close> on. The result is the
  early return value if any, the value of \<open>n_tries\<close> after the loop and the number of
  attempts made so far. \<^verbatim>\<open>continue\<close> jumps to the loop condition, which tests
  \<open>n_tries\<close> and then decrements the unsigned 32-bit counter.
\<close>

function power_on_loop :: "poll_results \<Rightarrow> nat \<Rightarrow> u32 \<Rightarrow> error option \<times> u32 \<times> nat" where
  "power_on_loop polls i n_tries =
     (case polls i of
        None \<Rightarrow>
          if n_tries \<noteq> 0 then power_on_loop polls (Suc i) (n_tries - 1)
          else (None, n_tries - 1, Suc i)
      | Some ret \<Rightarrow>
          if ret \<noteq> ETIMEDOUT then (Some ret, n_tries, Suc i)
          else (None, n_tries, Suc i))"
  by pat_completeness auto
termination
  by (relation "measure (\<lambda>(polls, i, n). unat n)") (auto simp: unat_minus_one unat_gt_0)

definition ltc4282_power_on :: "error option \<Rightarrow> poll_results \<Rightarrow> error option \<times> nat" where
  "ltc4282_power_on regulator_ret polls =
     (case regulator_ret of
        Some e \<Rightarrow> (Some e, 0)
      | None \<Rightarrow>
          (case power_on_loop polls 0 5 of
             (Some e, n_tries, attempts) \<Rightarrow> (Some e, attempts)
           | (None, n_tries, attempts) \<Rightarrow>
               if n_tries = 0 then (Some ETIMEDOUT, attempts) else (None, attempts)))"

section \<open>Example devices\<close>

text \<open>
  A device whose registers are all zero and whose bus never fails, and a driver state
  with the default 12 V input class and a sense resistance of 2000 tenths of a micro-ohm.
\<close>

definition quiet_map :: regmap where
  "quiet_map = \<lparr>regs = (\<lambda>_. 0), nak = (\<lambda>_. False)\<rparr>"

definition with_reg :: "regmap \<Rightarrow> u32 \<Rightarrow> u8 \<Rightarrow> regmap" where
  "with_reg m reg v = m\<lparr>regs := (regs m)(reg := v)\<rparr>"

definition state_12v :: "regmap \<Rightarrow> ltc4282_state" where
  "state_12v m =
     \<lparr>map_r = m, gpio_map = [0, 0, 0, 0], rsense = 2000, vin_mode = LTC4282_VIN_12V,
      vfs_out = 16640, vdd_monitor = False\<rparr>"

definition state_24v :: "regmap \<Rightarrow> ltc4282_state" where
  "state_24v m =
     \<lparr>map_r = m, gpio_map = [0, 0, 0, 0], rsense = 2000, vin_mode = LTC4282_VIN_24V,
      vfs_out = 33280, vdd_monitor = False\<rparr>"

definition state_pins :: "regmap \<Rightarrow> u32 list \<Rightarrow> ltc4282_state" where
  "state_pins m pins = (state_12v m)\<lparr>gpio_map := pins\<rparr>"

text \<open>
  The rounding of the spec, \<open>round(a / b)\<close>, on natural numbers: the nearest integer,
  a half rounded up.
\<close>

definition round_div :: "nat \<Rightarrow> nat \<Rightarrow> nat" where
  "round_div a b = (a + b div 2) div b"

definition state_energy :: "u8 list \<Rightarrow> u8 list \<Rightarrow> regmap" where
  "state_energy e c = quiet_map\<lparr>regs := (\<lambda>r.
      if LTC4282_ENERGY \<le> r \<and> r < LTC4282_ENERGY + 6 then e ! unat (r - LTC4282_ENERGY)
      else if LTC4282_TIME_COUNTER \<le> r \<and> r < LTC4282_TIME_COUNTER + 4
      then c ! unat (r - LTC4282_TIME_COUNTER) else 0)\<rparr>"

section \<open>Configuration\<close>

definition LTC4282_GPIO_MODE_MASK :: u32 where "LTC4282_GPIO_MODE_MASK = push_bit 1 1"

definition LTC4282_CLKOUT_INT :: u32 where "LTC4282_CLKOUT_INT = 0"

definition LTC4282_DIV_EXTERNAL :: u32 where "LTC4282_DIV_EXTERNAL = 0"
definition LTC4282_DIV_5_PERCENT :: u32 where "LTC4282_DIV_5_PERCENT = 1"
definition LTC4282_DIV_10_PERCENT :: u32 where "LTC4282_DIV_10_PERCENT = 2"

text \<open>The valid GPIO functions; \<^verbatim>\<open>LTC4282_PIN_ADC\<close> is set to 2 in the source's enum.\<close>

definition LTC4282_PIN_GPIO :: u32 where "LTC4282_PIN_GPIO = 0"
definition LTC4282_PIN_POWER_BAD :: u32 where "LTC4282_PIN_POWER_BAD = 1"
definition LTC4282_PIN_POWER_GOOD :: u32 where "LTC4282_PIN_POWER_GOOD = 2"
definition LTC4282_PIN_FET_STRESS :: u32 where "LTC4282_PIN_FET_STRESS = 3"

text \<open>
  Modelled from the spec: \<^verbatim>\<open>FIELD_PREP(mask, val)\<close> of \<^verbatim>\<open>linux/bitfield.h\<close> is not part
  of the driver source; it shifts the value to the position of the mask's lowest set bit and keeps the
  bits of the mask, as the source's own \<^verbatim>\<open>LTC4282_FIELD_PREP\<close> does.
\<close>

definition FIELD_PREP :: "u32 \<Rightarrow> u32 \<Rightarrow> u32" where
  "FIELD_PREP m v = push_bit (ffs m - 1) v AND m"

text \<open>
  Modelled from the spec: the firmware property API (\<^verbatim>\<open>device_property_read_u32\<close>,
  \<^verbatim>\<open>device_property_read_bool\<close>), the clock API, \<^verbatim>\<open>IS_ENABLED(CONFIG_GPIOLIB)\<close> and
  \<^verbatim>\<open>devm_gpiochip_add_data\<close> are not part of the driver source. The spec describes
  the configuration as
  a set of keys, each optional value absent or present. The record holds one field per
  key the driver reads; a missing numeric property makes the read fail with \<open>EINVAL\<close>.
  \<open>clkin\<close> is the result of \<^verbatim>\<open>devm_clk_get_optional_enabled\<close>: an error pointer
  (\<open>Inl\<close>), no clock (\<open>Inr None\<close>) or a clock with its rate; \<open>gpio_mode\<close> holds the three
  \<^verbatim>\<open>adi,gpioN-mode\<close> properties by index, \<open>gpiochip_add_ret\<close> the return value of the
  GPIO chip registration (\<open>None\<close> is 0).
\<close>

record ltc4282_props =
  rsense_nano_ohms :: "u32 option"
  vin_mode_microvolt :: "u32 option"
  current_limit_microvolt :: "u32 option"
  vin_monitor :: bool
  overvoltage_dividers :: "u32 option"
  undervoltage_dividers :: "u32 option"
  on_delay :: bool
  on_active_low :: bool
  overcurrent_retry :: bool
  fet_bad_timeout_ms :: "u32 option"
  gpio_mode :: "nat \<Rightarrow> u32 option"
  alert_as_gp :: bool
  config_gpiolib :: bool
  gpiochip_add_ret :: "error option"
  clkin :: "error + u64 option"
  clkout_mode :: "u32 option"

text \<open>
  A driver function that returns an \<^verbatim>\<open>int\<close> and changes the state through its pointer
  argument is a pair: the return value (\<open>None\<close> is 0) and the state it leaves.
\<close>

type_synonym ret = "error option \<times> ltc4282_state"

definition st_update_bits :: "ltc4282_state \<Rightarrow> u32 \<Rightarrow> u32 \<Rightarrow> u32 \<Rightarrow> ret" where
  "st_update_bits st reg msk val =
     (case regmap_update_bits (map_r st) reg msk val of
        Inl e \<Rightarrow> (Some e, st)
      | Inr m \<Rightarrow> (None, st\<lparr>map_r := m\<rparr>))"




text \<open>
  \<^verbatim>\<open>ltc4282_non_gpio_setup\<close>. \<open>adc_in\<close> is the caller's flag, passed by pointer. The list
  \<open>adc_pins\<close> is not a variable of the source: it records, in order, the pins for which
  the statement \<^verbatim>\<open>*adc_in = true\<close> was executed, that is the pins given to the ADC input.
\<close>

definition ltc4282_non_gpio_setup ::
  "ltc4282_state \<Rightarrow> u32 \<Rightarrow> u32 \<Rightarrow> bool \<Rightarrow> u32 list \<Rightarrow> ret \<times> bool \<times> u32 list" where
  "ltc4282_non_gpio_setup st pin func adc_in adc_pins =
     (if pin = LTC4282_GPIO_1 then
        (let val = (if func = LTC4282_PIN_POWER_GOOD then 0 else LTC4282_PIN_POWER_BAD)
         in (st_update_bits st LTC4282_GPIO_CONFIG LTC4282_GPIO_1_CONFIG_MASK
               (FIELD_PREP LTC4282_GPIO_1_CONFIG_MASK val), adc_in, adc_pins))
      else if func = LTC4282_PIN_FET_STRESS then
        (st_update_bits st LTC4282_GPIO_CONFIG LTC4282_GPIO_2_FET_STRESS_MASK
           (FIELD_PREP LTC4282_GPIO_2_FET_STRESS_MASK 1), adc_in, adc_pins)
      else if adc_in then ((Some EINVAL, st), adc_in, adc_pins)
      else
        (st_update_bits st LTC4282_ILIM_ADJUST LTC4282_GPIO_MODE_MASK
           (FIELD_PREP LTC4282_GPIO_MODE_MASK (if pin = LTC4282_GPIO_2 then 1 else 0)),
         True, adc_pins @ [pin]))"

text \<open>
  The state of the \<^verbatim>\<open>for\<close> loop of \<^verbatim>\<open>ltc4282_gpio_setup\<close>: the locals \<open>ngpios\<close> and
  \<open>adc_in\<close>, the record of ADC pins, and the driver state.
\<close>

record gpio_loop =
  ngpios :: nat
  adc_in :: bool
  adc_pins :: "u32 list"
  loop_st :: ltc4282_state

text \<open>
  The loop over the pins GPIO1 to GPIO3. The first component of the result is \<open>Some r\<close>
  when the function returned \<open>r\<close> from inside the loop and \<open>None\<close> when the loop ran to
  its end. For a function number that is not below \<open>n_funcs\<close> the source returns
  \<^verbatim>\<open>dev_err_probe(dev, ret, ...)\<close> with \<open>ret\<close> still 0 from the successful property
  read, and \<^verbatim>\<open>dev_err_probe\<close> returns the error code it is given: the function returns 0.
\<close>

fun gpio_setup_loop ::
  "ltc4282_props \<Rightarrow> nat list \<Rightarrow> gpio_loop \<Rightarrow> error option option \<times> gpio_loop" where
  "gpio_setup_loop props [] ls = (None, ls)"
| "gpio_setup_loop props (gpio # rest) ls =
     (case gpio_mode props gpio of
        None \<Rightarrow> gpio_setup_loop props rest ls
      | Some func \<Rightarrow>
          if func \<ge> ucast (n_funcs (ltc4282_gpios ! gpio)) then (Some None, ls)
          else if func = LTC4282_PIN_GPIO then
            (let st1 = (loop_st ls)\<lparr>gpio_map := (gpio_map (loop_st ls))[ngpios ls := of_nat gpio]\<rparr>;
                 ls1 = ls\<lparr>ngpios := ngpios ls + 1, loop_st := st1\<rparr>
             in if of_nat gpio = LTC4282_GPIO_1 then
                  (case regmap_set_bits (map_r st1) LTC4282_GPIO_CONFIG
                          LTC4282_GPIO_1_CONFIG_MASK of
                     Inl e \<Rightarrow> (Some (Some e), ls1)
                   | Inr m \<Rightarrow>
                       gpio_setup_loop props rest (ls1\<lparr>loop_st := st1\<lparr>map_r := m\<rparr>\<rparr>))
                else gpio_setup_loop props rest ls1)
          else
            (case ltc4282_non_gpio_setup (loop_st ls) (of_nat gpio) func (adc_in ls)
                    (adc_pins ls) of
               ((Some e, st1), a, p) \<Rightarrow>
                 (Some (Some e), ls\<lparr>adc_in := a, adc_pins := p, loop_st := st1\<rparr>)
             | ((None, st1), a, p) \<Rightarrow>
                 gpio_setup_loop props rest (ls\<lparr>adc_in := a, adc_pins := p, loop_st := st1\<rparr>)))"

text \<open>
  \<^verbatim>\<open>ltc4282_gpio_setup\<close>: the return value, the state, and the record of the pins given
  to the ADC input.
\<close>

definition ltc4282_gpio_setup :: "ltc4282_props \<Rightarrow> ltc4282_state \<Rightarrow> ret \<times> u32 list" where
  "ltc4282_gpio_setup props st =
     (if \<not> config_gpiolib props then ((None, st), [])
      else
        (case gpio_setup_loop props [0, 1, 2]
                \<lparr>ngpios = 0, adc_in = False, adc_pins = [], loop_st = st\<rparr> of
           (Some r, ls) \<Rightarrow> ((r, loop_st ls), adc_pins ls)
         | (None, ls) \<Rightarrow>
             (let ls1 = (if alert_as_gp props
                         then ls\<lparr>ngpios := ngpios ls + 1,
                                 loop_st := (loop_st ls)\<lparr>gpio_map :=
                                   (gpio_map (loop_st ls))[ngpios ls := LTC4282_ALERT]\<rparr>\<rparr>
                         else ls)
              in if ngpios ls1 = 0 then ((None, loop_st ls1), adc_pins ls1)
                 else ((gpiochip_add_ret props, loop_st ls1), adc_pins ls1))))"











text \<open>
  A property set with the required sense resistance only, and driver state as
  \<^verbatim>\<open>devm_kzalloc\<close> leaves it.
\<close>

definition props_min :: ltc4282_props where
  "props_min =
     \<lparr>rsense_nano_ohms = Some 200000, vin_mode_microvolt = None,
      current_limit_microvolt = None, vin_monitor = False, overvoltage_dividers = None,
      undervoltage_dividers = None, on_delay = False, on_active_low = False,
      overcurrent_retry = False, fet_bad_timeout_ms = None, gpio_mode = (\<lambda>_. None),
      alert_as_gp = False, config_gpiolib = True, gpiochip_add_ret = None,
      clkin = Inr None, clkout_mode = None\<rparr>"

definition state_zero :: "regmap \<Rightarrow> ltc4282_state" where
  "state_zero m =
     \<lparr>map_r = m, gpio_map = [0, 0, 0, 0], rsense = 0, vin_mode = 0, vfs_out = 0,
      vdd_monitor = False\<rparr>"










definition props_bad_gpio :: ltc4282_props where
  "props_bad_gpio = props_min\<lparr>gpio_mode := (\<lambda>i. if i = 0 then Some 7 else None)\<rparr>"






section \<open>Helper facts\<close>

lemmas reg_defs =
  LTC4282_CTRL_LSB_def LTC4282_CTRL_MSB_def LTC4282_ADC_ALERT_LOG_def
  LTC4282_FET_BAD_FAULT_TIMEOUT_def LTC4282_GPIO_CONFIG_def LTC4282_VGPIO_MIN_def
  LTC4282_VGPIO_MAX_def LTC4282_VSOURCE_MIN_def LTC4282_VSOURCE_MAX_def
  LTC4282_VSENSE_MIN_def LTC4282_VSENSE_MAX_def LTC4282_POWER_MIN_def
  LTC4282_POWER_MAX_def LTC4282_CLK_DIV_def LTC4282_ILIM_ADJUST_def LTC4282_ENERGY_def
  LTC4282_TIME_COUNTER_def LTC4282_ALERT_CTRL_def LTC4282_ADC_CTRL_def
  LTC4282_STATUS_LSB_def LTC4282_STATUS_MSB_def LTC4282_RESERVED_1_def
  LTC4282_RESERVED_2_def LTC4282_VGPIO_def LTC4282_VGPIO_LOWEST_def
  LTC4282_VGPIO_HIGHEST_def LTC4282_VSOURCE_def LTC4282_VSOURCE_LOWEST_def
  LTC4282_VSOURCE_HIGHEST_def LTC4282_VSENSE_def LTC4282_VSENSE_LOWEST_def
  LTC4282_VSENSE_HIGHEST_def LTC4282_POWER_def LTC4282_POWER_LOWEST_def
  LTC4282_POWER_HIGHEST_def LTC4282_RESERVED_3_def

lemma regmap_bulk_read_2:
  "regmap_bulk_read m reg 2 =
     (case regmap_read m reg of
        Inl e \<Rightarrow> Inl e
      | Inr b0 \<Rightarrow>
          (case regmap_read m (reg + 1) of
             Inl e \<Rightarrow> Inl e
           | Inr b1 \<Rightarrow> Inr [ucast b0, ucast b1]))"
  by (simp add: numeral_2_eq_2 split: sum.splits)

lemma unat_ucast_widen:
  fixes w :: "'a::len word"
  assumes "LENGTH('a) \<le> LENGTH('b::len)"
  shows "unat (ucast w :: 'b word) = unat w"
proof -
  have "unat w < 2 ^ LENGTH('a)" by (rule unsigned_less)
  also have "(2::nat) ^ LENGTH('a) \<le> 2 ^ LENGTH('b)"
    using assms by (simp add: power_increasing)
  finally show ?thesis
    by (simp add: unsigned_ucast_eq take_bit_nat_eq_self)
qed

lemma unat_code_times_fs:
  fixes c :: u16 and fs :: u32
  shows "unat ((ucast c :: u64) * ucast fs + 32767) = unat c * unat fs + 32767"
proof -
  have c: "unat c < 2 ^ 16" using unsigned_less [of c] by simp
  have f: "unat fs < 2 ^ 32" using unsigned_less [of fs] by simp
  have "unat c * unat fs \<le> (2 ^ 16 - 1) * (2 ^ 32 - 1)"
    using c f by (intro mult_le_mono) simp_all
  then have b: "unat c * unat fs < 2 ^ 64 - 32767" by simp
  have uc: "unat (ucast c :: u64) = unat c" by (simp add: unat_ucast_widen)
  have uf: "unat (ucast fs :: u64) = unat fs" by (simp add: unat_ucast_widen)
  have m: "unat ((ucast c :: u64) * ucast fs) = unat c * unat fs"
    using b uc uf by (simp add: unat_mult_lem [THEN iffD1])
  show ?thesis
    using b m by (simp add: unat_add_lem [THEN iffD1])
qed

lemma voltage_word_value:
  fixes c :: u16 and fs :: u32
  shows "DIV_ROUND_CLOSEST_ULL (ucast c * ucast fs) (ucast U16_MAX) = Inr v
         \<longleftrightarrow> v = ((ucast c :: u64) * ucast fs + 32767) div 65535"
  by (auto simp: DIV_ROUND_CLOSEST_ULL_def U16_MAX_def Let_def)

lemma unat_voltage_word:
  fixes c :: u16 and fs :: u32
  shows "unat (((ucast c :: u64) * ucast fs + 32767) div 65535)
         = (unat c * unat fs + 32767) div 65535"
  by (simp add: unat_div unat_code_times_fs)

lemma small_word_cases:
  fixes pin :: u32
  assumes "unat pin < 4"
  shows "pin = 0 \<or> pin = 1 \<or> pin = 2 \<or> pin = 3"
proof -
  have "unat pin = 0 \<or> unat pin = 1 \<or> unat pin = 2 \<or> unat pin = 3"
    using assms by arith
  then show ?thesis
    by (auto simp: word_unat_eq_iff)
qed

lemma gpio_lookup_cases:
  assumes "gpio_lookup st offset = Inr (pin, gpio)"
  shows "(pin = 0 \<or> pin = 1 \<or> pin = 2 \<or> pin = 3) \<and> gpio = ltc4282_gpios ! unat pin"
proof -
  from assms have "unat pin < 4 \<and> gpio = ltc4282_gpios ! unat pin"
    by (auto simp: gpio_lookup_def Let_def ltc4282_gpios_def split: if_splits)
  then show ?thesis using small_word_cases by blast
qed

lemma ffs_bits: "ffs 8 = 4" "ffs 64 = 7" "ffs 128 = 8"
  by code_simp+

lemma field_prep_bit:
  "LTC4282_FIELD_PREP 8 v = push_bit 3 v AND 8"
  "LTC4282_FIELD_PREP 64 v = push_bit 6 v AND 64"
  "LTC4282_FIELD_PREP 128 v = push_bit 7 v AND 128"
  by (simp_all add: LTC4282_FIELD_PREP_def ffs_bits)

lemma update_bit_readback:
  fixes orig :: u8 and x :: u32
  assumes "k < 8"
  shows "(ucast (ucast (((ucast orig :: u32) AND NOT (push_bit k 1)) OR (x AND push_bit k 1)) :: u8) :: u32)
           AND push_bit k 1 = x AND push_bit k 1"
  using assms by (intro bit_eqI) (auto simp add: bit_simps)

lemma update_bit_readback_num:
  fixes orig :: u8 and x :: u32
  shows "(ucast (ucast (((ucast orig :: u32) AND NOT 8) OR (x AND 8)) :: u8) :: u32) AND 8 = x AND 8"
    and "(ucast (ucast (((ucast orig :: u32) AND NOT 64) OR (x AND 64)) :: u8) :: u32) AND 64 = x AND 64"
    and "(ucast (ucast (((ucast orig :: u32) AND NOT 128) OR (x AND 128)) :: u8) :: u32) AND 128 = x AND 128"
  using update_bit_readback [of 3 orig x] update_bit_readback [of 6 orig x]
    update_bit_readback [of 7 orig x]
  by simp_all

lemma update_tmp_mask:
  fixes orig x :: u32
  shows "((orig AND NOT (push_bit k 1)) OR (x AND push_bit k 1)) AND push_bit k 1 = x AND push_bit k 1"
  by (intro bit_eqI) (auto simp add: bit_simps)

lemma regmap_update_bits_single_bit:
  assumes acc: "reg \<le> LTC4282_RESERVED_3" "ltc4282_readable_reg reg" "ltc4282_writable_reg reg"
    and bus: "\<not> nak m reg"
    and k: "k < 8"
  shows "\<exists>m' r. regmap_update_bits m reg (push_bit k 1) x = Inr m'
           \<and> regmap_read m' reg = Inr r
           \<and> r AND push_bit k 1 = x AND push_bit k 1"
proof -
  define orig :: u32 where "orig = ucast (regs m reg)"
  define tmp where "tmp = (orig AND NOT (push_bit k 1)) OR (x AND push_bit k 1)"
  have rd: "regmap_read m reg = Inr orig"
    using acc bus by (simp add: regmap_read_def orig_def not_less [symmetric])
  show ?thesis
  proof (cases "tmp = orig")
    case True
    then have "regmap_update_bits m reg (push_bit k 1) x = Inr m"
      by (simp add: regmap_update_bits_def rd tmp_def Let_def)
    moreover have "orig AND push_bit k 1 = x AND push_bit k 1"
      using update_tmp_mask [of orig k x] True by (simp add: tmp_def)
    ultimately show ?thesis using rd by blast
  next
    case False
    let ?m' = "m\<lparr>regs := (regs m)(reg := ucast tmp)\<rparr>"
    have w: "regmap_update_bits m reg (push_bit k 1) x = Inr ?m'"
      using False acc bus
      by (simp add: regmap_update_bits_def rd tmp_def Let_def regmap_write_def not_less [symmetric])
    have r: "regmap_read ?m' reg = Inr (ucast (ucast tmp :: u8))"
      using acc bus by (simp add: regmap_read_def not_less [symmetric])
    have "(ucast (ucast tmp :: u8) :: u32) AND push_bit k 1 = x AND push_bit k 1"
      unfolding tmp_def orig_def using k by (rule update_bit_readback)
    with w r show ?thesis by blast
  qed
qed

lemma bit0_test:
  fixes v :: u32
  assumes "v = 0 \<or> v = 1"
  shows "((push_bit k v AND push_bit k 1) AND push_bit k 1 \<noteq> 0) = (v = 1 \<and> k < 32)"
  using assms by (auto simp: bit_eq_iff bit_simps)

lemmas gpio_mask_defs =
  LTC4282_GPIO_1_OUT_MASK_def LTC4282_GPIO_2_OUT_MASK_def LTC4282_GPIO_3_OUT_MASK_def
  LTC4282_ALERT_OUT_MASK_def LTC4282_ALERT_STATUS_MASK_def LTC4282_GPIO_1_STATUS_MASK_def
  LTC4282_GPIO_2_STATUS_MASK_def LTC4282_GPIO_3_STATUS_MASK_def

lemmas gpio_pin_defs = LTC4282_GPIO_1_def LTC4282_GPIO_2_def LTC4282_GPIO_3_def LTC4282_ALERT_def

lemma gpio_entry_facts:
  assumes "gpio_lookup st offset = Inr (pin, gpio)"
  shows "\<exists>k<8. out_mask gpio = push_bit k 1
           \<and> (\<forall>v. LTC4282_FIELD_PREP (out_mask gpio) v = push_bit k v AND push_bit k 1)
           \<and> out_reg gpio \<le> LTC4282_RESERVED_3
           \<and> ltc4282_readable_reg (out_reg gpio) \<and> ltc4282_writable_reg (out_reg gpio)
           \<and> active_high gpio = (pin = LTC4282_GPIO_1)
           \<and> in_reg gpio = LTC4282_STATUS_MSB"
proof -
  from gpio_lookup_cases [OF assms]
  have pc: "pin = 0 \<or> pin = 1 \<or> pin = 2 \<or> pin = 3" and g: "gpio = ltc4282_gpios ! unat pin"
    by simp_all
  from pc show ?thesis
  proof (elim disjE)
    assume "pin = 0"
    then show ?thesis unfolding g
      by (intro exI [of _ 3])
        (simp add: ltc4282_gpios_def gpio_mask_defs gpio_pin_defs field_prep_bit reg_defs
          ltc4282_readable_reg_def ltc4282_writable_reg_def)
  next
    assume "pin = 1"
    then show ?thesis unfolding g
      by (intro exI [of _ 6])
        (simp add: ltc4282_gpios_def gpio_mask_defs gpio_pin_defs field_prep_bit reg_defs
          ltc4282_readable_reg_def ltc4282_writable_reg_def)
  next
    assume "pin = 2"
    then show ?thesis unfolding g
      by (intro exI [of _ 7])
        (simp add: ltc4282_gpios_def gpio_mask_defs gpio_pin_defs field_prep_bit reg_defs
          ltc4282_readable_reg_def ltc4282_writable_reg_def)
  next
    assume "pin = 3"
    then show ?thesis unfolding g
      by (intro exI [of _ 6])
        (simp add: ltc4282_gpios_def gpio_mask_defs gpio_pin_defs field_prep_bit reg_defs
          ltc4282_readable_reg_def ltc4282_writable_reg_def)
  qed
qed

lemma ucast_ucast_low32:
  fixes d :: u64
  assumes "unat d < 2 ^ 32"
  shows "unat (ucast (ucast d :: u32) :: u64) = unat d"
proof -
  have "unat (ucast (ucast d :: u32) :: u64) = unat (ucast d :: u32)"
    by (simp add: unat_ucast_widen)
  also have "\<dots> = take_bit 32 (unat d)"
    by (simp add: unsigned_ucast_eq)
  also have "\<dots> = unat d"
    using assms by (simp add: take_bit_nat_eq_self)
  finally show ?thesis .
qed

lemma DIV_ROUND_CLOSEST_ULL_exact:
  assumes nowrap: "unat x + unat d div 2 < 2 ^ 64"
    and pos: "0 < unat d"
    and small: "unat d < 2 ^ 32"
  shows "\<exists>v. DIV_ROUND_CLOSEST_ULL x d = Inr v \<and> unat v = round_div (unat x) (unat d)"
proof -
  have h: "unat (d div 2) = unat d div 2" by (simp add: unat_div)
  have t: "unat (x + d div 2) = unat x + unat d div 2"
    using nowrap by (simp add: unat_add_lem [THEN iffD1] h)
  have b: "unat (ucast (ucast d :: u32) :: u64) = unat d"
    using small by (rule ucast_ucast_low32)
  have nz: "(ucast d :: u32) \<noteq> 0"
  proof
    assume "(ucast d :: u32) = 0"
    then have "unat (ucast (ucast d :: u32) :: u64) = 0" by simp
    with b pos show False by simp
  qed
  have "unat ((x + d div 2) div ucast (ucast d :: u32)) = (unat x + unat d div 2) div unat d"
    by (simp add: unat_div t b)
  with nz show ?thesis
    by (simp add: DIV_ROUND_CLOSEST_ULL_def Let_def round_div_def)
qed

lemma check_mul_overflow_no:
  assumes "unat a * unat b < 2 ^ 64"
  shows "check_mul_overflow a b = (False, a * b)" and "unat (a * b) = unat a * unat b"
  using assms by (simp_all add: check_mul_overflow_def unat_mult_lem [THEN iffD1])

lemma check_mul_overflow_yes:
  assumes "2 ^ 64 \<le> unat a * unat b"
  shows "fst (check_mul_overflow a b)"
  using assms by (simp add: check_mul_overflow_def)

lemma unat_MICRO: "unat MICRO = 1000000" by (simp add: MICRO_def)

lemma tconv_times_count:
  fixes c :: u32
  assumes "unat c \<le> 65537"
  shows "unat (ucast (LTC4282_TCONV_US * c) :: u64) = 65535 * unat c"
proof -
  have "65535 * unat c \<le> 65535 * 65537" using assms by simp
  then have "unat (65535 :: u32) * unat c < 2 ^ 32" by simp
  then have "unat ((65535 :: u32) * c) = 65535 * unat c"
    by (simp add: unat_mult_lem [THEN iffD1])
  then show ?thesis by (simp add: LTC4282_TCONV_US_def unat_ucast_widen)
qed

lemmas dev_defs = quiet_map_def with_reg_def state_12v_def state_24v_def

lemmas rd_defs = regmap_read_def ltc4282_readable_reg_def reg_defs

lemmas energy_defs =
  ltc4282_read_energy_def le64_to_cpu_def check_mul_overflow_def energy_factor_def DECA_def
  read_energy_fallback_def read_energy_fast_def DIV_ROUND_CLOSEST_def
  DIV_ROUND_CLOSEST_ULL_def U16_MAX_def

lemma regmap_bulk_read_numeral:
  "regmap_bulk_read m reg (numeral k) =
     (case regmap_read m reg of
        Inl e \<Rightarrow> Inl e
      | Inr b \<Rightarrow>
          (case regmap_bulk_read m (reg + 1) (pred_numeral k) of
             Inl e \<Rightarrow> Inl e
           | Inr bs \<Rightarrow> Inr (ucast b # bs)))"
  by (simp add: numeral_eq_Suc)

lemma regmap_bulk_read_1:
  "regmap_bulk_read m reg 1 =
     (case regmap_read m reg of Inl e \<Rightarrow> Inl e | Inr b \<Rightarrow> Inr [ucast b])"
  by (simp add: One_nat_def [symmetric] del: One_nat_def split: sum.splits)
     (simp add: One_nat_def)

lemma ucast_byte_roundtrip:
  fixes a :: u8
  shows "(ucast (ucast a :: u32) :: u8) = a"
  by (simp add: ucast_up_ucast_id is_up)

lemma state_energy_bulk6: "regmap_bulk_read (state_energy [a0,a1,a2,a3,a4,a5] c) LTC4282_ENERGY 6 = Inr [a0,a1,a2,a3,a4,a5]"
  by (simp add: state_energy_def regmap_bulk_read_numeral regmap_bulk_read_1 rd_defs quiet_map_def
      ucast_byte_roundtrip)

lemma state_energy_bulk4: "regmap_bulk_read (state_energy e [c0,c1,c2,c3]) LTC4282_TIME_COUNTER 4 = Inr [c0,c1,c2,c3]"
  by (simp add: state_energy_def regmap_bulk_read_numeral regmap_bulk_read_1 rd_defs quiet_map_def
      ucast_byte_roundtrip)

lemma div_add_le_Suc:
  fixes a t d :: nat
  assumes "0 < d"
  shows "(a + t) div d \<le> a div d + t div d + 1"
proof -
  have "a mod d + t mod d < 2 * d"
    using assms mod_less_divisor [of d a] mod_less_divisor [of d t] by linarith
  then have "(a mod d + t mod d) div d < 2"
    by (rule less_mult_imp_div_less)
  moreover have "(a + t) div d = a div d + t div d + (a mod d + t mod d) div d"
    by (rule div_add1_eq)
  ultimately show ?thesis by linarith
qed

lemma round_div_factor_bounds:
  fixes K :: nat
  shows "65535 * round_div K 65535 \<le> K + 32767"
    and "K \<le> 65535 * round_div K 65535 + 32767"
    and "round_div K 65535 \<le> K"
proof -
  define q where "q = (K + 32767) div 65535"
  have q: "round_div K 65535 = q" by (simp add: round_div_def q_def)
  have lo: "65535 * q \<le> K + 32767"
    unfolding q_def by (rule times_div_less_eq_dividend)
  have hi: "K + 32767 < 65535 + 65535 * q"
    unfolding q_def by (rule dividend_less_times_div) simp
  show "65535 * round_div K 65535 \<le> K + 32767" using lo by (simp add: q)
  show "K \<le> 65535 * round_div K 65535 + 32767" using hi unfolding q by linarith
  show "round_div K 65535 \<le> K" using lo unfolding q by linarith
qed

lemma half_scaled_bounds:
  fixes r :: nat
  shows "65535 * r div 2 \<le> 65535 * (r div 2) + 32767"
    and "65535 * (r div 2) \<le> 65535 * r div 2"
proof -
  define h where "h = 65535 * r div 2"
  define q where "q = r div 2"
  have h1: "2 * h \<le> 65535 * r" unfolding h_def by (rule times_div_less_eq_dividend)
  have h2: "65535 * r < 2 + 2 * h" unfolding h_def by (rule dividend_less_times_div) simp
  have q1: "2 * q \<le> r" unfolding q_def by (rule times_div_less_eq_dividend)
  have q2: "r < 2 + 2 * q" unfolding q_def by (rule dividend_less_times_div) simp
  show "65535 * r div 2 \<le> 65535 * (r div 2) + 32767"
    using h1 q2 unfolding h_def [symmetric] q_def [symmetric] by linarith
  show "65535 * (r div 2) \<le> 65535 * r div 2"
    using h2 q1 unfolding h_def [symmetric] q_def [symmetric] by linarith
qed

lemma round_paths_close:
  fixes K e r :: nat
  assumes r: "0 < r"
  shows "round_div (K * e) (65535 * r)
           \<le> round_div (round_div K 65535 * e) r + 32767 * (e + 1) div (65535 * r) + 1"
    and "round_div (round_div K 65535 * e) r
           \<le> round_div (K * e) (65535 * r) + 32767 * (e + 1) div (65535 * r) + 1"
proof -
  define Kr where "Kr = round_div K 65535"
  define D where "D = 65535 * r"
  define X where "X = 65535 * (Kr * e + r div 2)"
  have D: "0 < D" using r by (simp add: D_def)
  have "(65535 * (Kr * e + r div 2)) div (65535 * r) = (Kr * e + r div 2) div r"
    by (rule div_mult_mult1) simp
  then have b: "round_div (Kr * e) r = X div D"
    by (simp only: round_div_def X_def D_def)
  have f: "round_div (K * e) D = (K * e + D div 2) div D"
    by (simp add: round_div_def)
  have k1: "65535 * Kr * e \<le> (K + 32767) * e"
    using round_div_factor_bounds(1) [of K] by (simp add: Kr_def mult_le_mono1)
  have k2: "K * e \<le> (65535 * Kr + 32767) * e"
    using round_div_factor_bounds(2) [of K] by (simp add: Kr_def mult_le_mono1)
  have up: "K * e + D div 2 \<le> X + 32767 * (e + 1)"
    using k2 half_scaled_bounds(1) [of r] by (simp add: X_def D_def algebra_simps)
  have dn: "X \<le> (K * e + D div 2) + 32767 * (e + 1)"
    using k1 half_scaled_bounds(2) [of r] by (simp add: X_def D_def algebra_simps)
  have "(K * e + D div 2) div D \<le> (X + 32767 * (e + 1)) div D"
    using up by (rule div_le_mono)
  also have "\<dots> \<le> X div D + 32767 * (e + 1) div D + 1"
    using D by (rule div_add_le_Suc)
  finally show "round_div (K * e) (65535 * r)
           \<le> round_div (round_div K 65535 * e) r + 32767 * (e + 1) div (65535 * r) + 1"
    unfolding f [symmetric] b [symmetric] unfolding Kr_def D_def .
  have "X div D \<le> ((K * e + D div 2) + 32767 * (e + 1)) div D"
    using dn by (rule div_le_mono)
  also have "\<dots> \<le> (K * e + D div 2) div D + 32767 * (e + 1) div D + 1"
    using D by (rule div_add_le_Suc)
  finally show "round_div (round_div K 65535 * e) r
           \<le> round_div (K * e) (65535 * r) + 32767 * (e + 1) div (65535 * r) + 1"
    unfolding f [symmetric] b [symmetric] unfolding Kr_def D_def .
qed

lemma u16_max_times:
  fixes c :: u32
  assumes "unat c \<le> 65537"
  shows "unat (ucast ((ucast U16_MAX :: u32) * c) :: u64) = 65535 * unat c"
proof -
  have "65535 * unat c \<le> 65535 * 65537" using assms by simp
  then have "unat (65535 :: u32) * unat c < 2 ^ 32" by simp
  then have "unat ((65535 :: u32) * c) = 65535 * unat c"
    by (simp add: unat_mult_lem [THEN iffD1])
  then show ?thesis by (simp add: U16_MAX_def unat_ucast_widen)
qed

lemma unat_energy_factor: "unat (energy_factor st) = 102400 * unat (vfs_out st)"
proof -
  define v :: u64 where "v = ucast (vfs_out st)"
  have uv: "unat v = unat (vfs_out st)" by (simp add: v_def unat_ucast_widen)
  have "unat (vfs_out st) < 2 ^ 16" using unsigned_less [of "vfs_out st"] by simp
  then have b: "unat v < 65536" by (simp add: uv)
  have "unat (102400 :: u64) * unat v < 2 ^ 64" using b by simp
  then have "unat (102400 * v) = 102400 * unat v"
    using check_mul_overflow_no(2) [of 102400 v] by simp
  moreover have "energy_factor st = 102400 * v"
    by (simp add: energy_factor_def DECA_def v_def)
  ultimately show ?thesis by (simp add: uv)
qed

lemma DIV_ROUND_CLOSEST_exact:
  fixes x d :: u64
  assumes "unat x + unat d div 2 < 2 ^ 64" and "0 < unat d"
  shows "\<exists>v. DIV_ROUND_CLOSEST x d = Inr v \<and> unat v = round_div (unat x) (unat d)"
proof -
  have h: "unat (d div 2) = unat d div 2" by (simp add: unat_div)
  have t: "unat (x + d div 2) = unat x + unat d div 2"
    using assms(1) by (simp add: unat_add_lem [THEN iffD1] h)
  have nz: "d \<noteq> 0" using assms(2) by (auto simp: unat_gt_0)
  have "unat ((x + d div 2) div d) = (unat x + unat d div 2) div unat d"
    by (simp add: unat_div t)
  with nz show ?thesis by (simp add: DIV_ROUND_CLOSEST_def round_div_def)
qed

lemma regmap_update_bits_ok:
  assumes "reg \<le> LTC4282_RESERVED_3" "ltc4282_readable_reg reg" "ltc4282_writable_reg reg"
    and "\<not> nak m reg"
  shows "\<exists>m'. regmap_update_bits m reg msk v = Inr m' \<and> nak m' = nak m"
  using assms
  by (simp add: regmap_update_bits_def regmap_read_def regmap_write_def Let_def
      not_less [symmetric])




lemma non_gpio_setup_second_adc:
  assumes "pin \<noteq> LTC4282_GPIO_1" and "func \<noteq> LTC4282_PIN_FET_STRESS"
  shows "ltc4282_non_gpio_setup st pin func True pins = ((Some EINVAL, st), True, pins)"
  using assms by (simp add: ltc4282_non_gpio_setup_def)

lemma non_gpio_setup_first_adc:
  assumes "pin \<noteq> LTC4282_GPIO_1" and "func \<noteq> LTC4282_PIN_FET_STRESS"
    and "\<not> nak (map_r st) LTC4282_ILIM_ADJUST"
  shows "\<exists>st'. ltc4282_non_gpio_setup st pin func False [] = ((None, st'), True, [pin])"
proof -
  have "\<exists>m'. regmap_update_bits (map_r st) LTC4282_ILIM_ADJUST LTC4282_GPIO_MODE_MASK
          (FIELD_PREP LTC4282_GPIO_MODE_MASK (if pin = LTC4282_GPIO_2 then 1 else 0)) = Inr m'
          \<and> nak m' = nak (map_r st)"
    using assms(3)
    by (intro regmap_update_bits_ok)
      (simp_all add: reg_defs ltc4282_readable_reg_def ltc4282_writable_reg_def)
  then obtain m' where "regmap_update_bits (map_r st) LTC4282_ILIM_ADJUST LTC4282_GPIO_MODE_MASK
          (FIELD_PREP LTC4282_GPIO_MODE_MASK (if pin = LTC4282_GPIO_2 then 1 else 0)) = Inr m'"
    by blast
  then show ?thesis
    using assms(1,2) by (simp add: ltc4282_non_gpio_setup_def st_update_bits_def)
qed














lemma gpio_setup_invalid_function_returns_0:
  "ltc4282_gpio_setup props_bad_gpio (state_zero quiet_map) = ((None, state_zero quiet_map), [])"
  by (simp add: ltc4282_gpio_setup_def props_bad_gpio_def props_min_def ltc4282_gpios_def
      word_le_nat_alt)

lemma voltage_word_small:
  fixes c f :: nat
  assumes "c < 2 ^ 16" and "f < 2 ^ 16"
  shows "(c * f + 32767) div 65535 < 2 ^ 63"
proof -
  have "c * f \<le> 65535 * 65535"
    using assms by (intro mult_le_mono) simp_all
  then have "c * f + 32767 < 2 ^ 63" by simp
  moreover have "(c * f + 32767) div 65535 \<le> c * f + 32767" by (rule div_le_dividend)
  ultimately show ?thesis by linarith
qed

text \<open>
  The word-width power read as the source has it, at the raw code 1 with the 12 V class
  and a sense resistance of 2000: \<^verbatim>\<open>check_mul_overflow\<close> has overwritten \<open>temp\<close> with
  the product, which the fast path multiplies by the code and by \<open>MICRO\<close> once more, and
  the 64-bit divisor goes through \<^verbatim>\<open>do_div\<close>. The formula of the data sheet gives 50783
  microwatts.
\<close>

lemma read_power_word_code_1:
  "ltc4282_read_power_word (state_12v (with_reg quiet_map LTC4282_POWER 1)) LTC4282_POWER
     = Inr 3944043242
   \<and> round_div (1 * (10 * 40 * 16640 * 65536) * 1000000) (2000 * 65535 * 65535) = 50783"
  by (simp add: ltc4282_read_power_word_def regmap_bulk_read_2 regmap_read_def dev_defs
      ltc4282_readable_reg_def reg_defs le16_to_cpu_def DECA_def MICRO_def U16_MAX_def
      check_mul_overflow_def read_power_word_fast_def read_power_word_fallback_def
      DIV_ROUND_CLOSEST_ULL_def int_pow_def round_div_def Let_def)







section \<open>Claims\<close>

text \<open>
  C9. For two device states whose 16-bit register pair at \<open>reg\<close> holds the codes
  \<open>c1 \<le> c2\<close>, and for each of the four full-scale classes 5540, 8320, 16640 and 33280 mV,
  the word-width voltage read succeeds in both states and the converted voltage
  \<open>round(code * full_scale / 65535)\<close> of the first is not above that of the second: the
  conversion is monotonic non-decreasing in the code. The values are below \<open>2 ^ 63\<close>, so
  they are the same numbers when read as \<^verbatim>\<open>long\<close>.
\<close>

theorem read_voltage_word_monotonic:
  assumes r1: "regmap_bulk_read (map_r st1) reg 2 = Inr b1"
    and r2: "regmap_bulk_read (map_r st2) reg 2 = Inr b2"
    and le: "le16_to_cpu b1 \<le> le16_to_cpu b2"
    and fs: "fs \<in> set ltc4282_vfs_milli"
  shows "\<exists>v1 v2. ltc4282_read_voltage_word st1 reg (ucast fs) = Inr v1
           \<and> ltc4282_read_voltage_word st2 reg (ucast fs) = Inr v2
           \<and> unat v1 = (unat (le16_to_cpu b1) * unat fs + 32767) div 65535
           \<and> unat v2 = (unat (le16_to_cpu b2) * unat fs + 32767) div 65535
           \<and> v1 \<le> v2 \<and> unat v2 < 2 ^ 63"
proof -
  define f :: u32 where "f = ucast fs"
  define v1 :: u64 where "v1 = (ucast (le16_to_cpu b1) * ucast f + 32767) div 65535"
  define v2 :: u64 where "v2 = (ucast (le16_to_cpu b2) * ucast f + 32767) div 65535"
  have uf: "unat f = unat fs" by (simp add: f_def unat_ucast_widen)
  have e1: "ltc4282_read_voltage_word st1 reg f = Inr v1"
    using r1 by (simp add: ltc4282_read_voltage_word_def voltage_word_value v1_def)
  have e2: "ltc4282_read_voltage_word st2 reg f = Inr v2"
    using r2 by (simp add: ltc4282_read_voltage_word_def voltage_word_value v2_def)
  have u1: "unat v1 = (unat (le16_to_cpu b1) * unat fs + 32767) div 65535"
    by (simp add: v1_def unat_voltage_word uf)
  have u2: "unat v2 = (unat (le16_to_cpu b2) * unat fs + 32767) div 65535"
    by (simp add: v2_def unat_voltage_word uf)
  have "unat (le16_to_cpu b1) \<le> unat (le16_to_cpu b2)"
    using le by (simp add: word_le_nat_alt)
  then have "unat (le16_to_cpu b1) * unat fs + 32767 \<le> unat (le16_to_cpu b2) * unat fs + 32767"
    by (simp add: mult_le_mono1)
  then have "unat v1 \<le> unat v2"
    unfolding u1 u2 by (rule div_le_mono)
  then have "v1 \<le> v2" by (simp add: word_le_nat_alt)
  moreover have "unat v2 < 2 ^ 63"
  proof -
    have "unat (le16_to_cpu b2) < 2 ^ 16" using unsigned_less [of "le16_to_cpu b2"] by simp
    moreover have "unat fs < 2 ^ 16" using unsigned_less [of fs] by simp
    ultimately show ?thesis unfolding u2 by (rule voltage_word_small)
  qed
  ultimately show ?thesis using e1 e2 u1 u2 unfolding f_def by blast
qed

theorem read_voltage_word_monotonic_witness:
  "regmap_bulk_read (map_r (state_12v (with_reg quiet_map LTC4282_VSOURCE 7))) LTC4282_VSOURCE 2
     = Inr [7, 0]
   \<and> regmap_bulk_read (map_r (state_12v (with_reg quiet_map LTC4282_VSOURCE 9))) LTC4282_VSOURCE 2
     = Inr [9, 0]
   \<and> le16_to_cpu [7, 0] \<le> le16_to_cpu [9, 0]
   \<and> (16640 :: u16) \<in> set ltc4282_vfs_milli
   \<and> (\<exists>v1 v2. ltc4282_read_voltage_word (state_12v (with_reg quiet_map LTC4282_VSOURCE 7))
                 LTC4282_VSOURCE (ucast (16640 :: u16)) = Inr v1
         \<and> ltc4282_read_voltage_word (state_12v (with_reg quiet_map LTC4282_VSOURCE 9))
                 LTC4282_VSOURCE (ucast (16640 :: u16)) = Inr v2
         \<and> unat v1 = (unat (le16_to_cpu [7, 0]) * unat (16640 :: u16) + 32767) div 65535
         \<and> unat v2 = (unat (le16_to_cpu [9, 0]) * unat (16640 :: u16) + 32767) div 65535
         \<and> v1 \<le> v2 \<and> unat v2 < 2 ^ 63)"
proof -
  have h1: "regmap_bulk_read (map_r (state_12v (with_reg quiet_map LTC4282_VSOURCE 7)))
              LTC4282_VSOURCE 2 = Inr [7, 0]"
    by (simp add: regmap_bulk_read_2 regmap_read_def state_12v_def with_reg_def quiet_map_def
        ltc4282_readable_reg_def reg_defs)
  have h2: "regmap_bulk_read (map_r (state_12v (with_reg quiet_map LTC4282_VSOURCE 9)))
              LTC4282_VSOURCE 2 = Inr [9, 0]"
    by (simp add: regmap_bulk_read_2 regmap_read_def state_12v_def with_reg_def quiet_map_def
        ltc4282_readable_reg_def reg_defs)
  have h3: "le16_to_cpu [7, 0] \<le> le16_to_cpu [9, 0]"
    by (simp add: le16_to_cpu_def)
  have h4: "(16640 :: u16) \<in> set ltc4282_vfs_milli"
    by (simp add: ltc4282_vfs_milli_def)
  from read_voltage_word_monotonic [OF h1 h2 h3 h4] h1 h2 h3 h4 show ?thesis
    by blast
qed

text \<open>
  C10. For the VSOURCE channel and for every other channel (VGPIO), reading the
  min-threshold attribute is the same computation as reading the max-threshold attribute:
  both read the MAX register (\<open>LTC4282_VSOURCE_MAX\<close>, respectively \<open>LTC4282_VGPIO_MAX\<close>)
  with the same full scale, so on any fixed state the two reads return equal results.
\<close>

theorem read_in_min_reads_max_register:
  "ltc4282_read_in st hwmon_in_min channel = ltc4282_read_in st hwmon_in_max channel
   \<and> ltc4282_read_in st hwmon_in_min LTC4282_CHAN_VSOURCE
       = ltc4282_read_voltage_byte st LTC4282_VSOURCE_MAX (ucast (vfs_out st))
   \<and> ltc4282_read_in st hwmon_in_min LTC4282_CHAN_VGPIO
       = ltc4282_read_voltage_byte st LTC4282_VGPIO_MAX 1280"
  by (simp add: ltc4282_read_in_def LTC4282_CHAN_VSOURCE_def LTC4282_CHAN_VGPIO_def)

text \<open>
  C2 (as stated, refuted). With a sense resistance of 2000 and the 12 V class (full
  scale 16640 mV), the byte-width power conversion of the raw code 240 is
  3,144,518,570 microwatts, which is not in the neighbourhood of 6,289,000.
\<close>

theorem read_power_byte_12v_not_6289000:
  "ltc4282_read_power_byte (state_12v (with_reg quiet_map LTC4282_POWER_MAX 240))
     LTC4282_POWER_MAX = Inr 3144518570
   \<and> \<not> (unat (3144518570 :: u64) \<le> 2 * 6289000)"
  by (simp add: ltc4282_read_power_byte_def regmap_read_def state_12v_def with_reg_def
      quiet_map_def ltc4282_readable_reg_def reg_defs DIV_ROUND_CLOSEST_ULL_def int_pow_def
      DECA_def MICRO_def U8_MAX_def Let_def)

text \<open>
  C2 (amended). With a sense resistance of 2000, whenever the power threshold register
  reads as the code 240, the byte-width power conversion yields exactly 3,144,518,570
  microwatts for the 12 V class (full scale 16640 mV) and exactly 6,289,037,140
  microwatts for the 24 V class (full scale 33280 mV), the case of the comment in the
  source.
\<close>

theorem read_power_byte_code_240:
  assumes "rsense st = 2000"
    and "regmap_read (map_r st) reg = Inr 240"
  shows "(vfs_out st = ltc4282_vfs_milli ! unat LTC4282_VIN_12V
            \<longrightarrow> ltc4282_read_power_byte st reg = Inr 3144518570)
       \<and> (vfs_out st = ltc4282_vfs_milli ! unat LTC4282_VIN_24V
            \<longrightarrow> ltc4282_read_power_byte st reg = Inr 6289037140)"
  using assms
  by (simp add: ltc4282_read_power_byte_def DIV_ROUND_CLOSEST_ULL_def int_pow_def
      DECA_def MICRO_def U8_MAX_def Let_def ltc4282_vfs_milli_def LTC4282_VIN_12V_def
      LTC4282_VIN_24V_def)

theorem read_power_byte_code_240_witness:
  "rsense (state_12v (with_reg quiet_map LTC4282_POWER_MAX 240)) = 2000
   \<and> regmap_read (map_r (state_12v (with_reg quiet_map LTC4282_POWER_MAX 240)))
        LTC4282_POWER_MAX = Inr 240
   \<and> vfs_out (state_12v (with_reg quiet_map LTC4282_POWER_MAX 240))
        = ltc4282_vfs_milli ! unat LTC4282_VIN_12V
   \<and> ltc4282_read_power_byte (state_12v (with_reg quiet_map LTC4282_POWER_MAX 240))
        LTC4282_POWER_MAX = Inr 3144518570
   \<and> rsense (state_24v (with_reg quiet_map LTC4282_POWER_MIN 240)) = 2000
   \<and> regmap_read (map_r (state_24v (with_reg quiet_map LTC4282_POWER_MIN 240)))
        LTC4282_POWER_MIN = Inr 240
   \<and> vfs_out (state_24v (with_reg quiet_map LTC4282_POWER_MIN 240))
        = ltc4282_vfs_milli ! unat LTC4282_VIN_24V
   \<and> ltc4282_read_power_byte (state_24v (with_reg quiet_map LTC4282_POWER_MIN 240))
        LTC4282_POWER_MIN = Inr 6289037140"
proof -
  let ?a = "state_12v (with_reg quiet_map LTC4282_POWER_MAX 240)"
  let ?b = "state_24v (with_reg quiet_map LTC4282_POWER_MIN 240)"
  have a1: "rsense ?a = 2000" by (simp add: state_12v_def)
  have a2: "regmap_read (map_r ?a) LTC4282_POWER_MAX = Inr 240"
    by (simp add: regmap_read_def state_12v_def with_reg_def quiet_map_def
        ltc4282_readable_reg_def reg_defs)
  have a3: "vfs_out ?a = ltc4282_vfs_milli ! unat LTC4282_VIN_12V"
    by (simp add: state_12v_def ltc4282_vfs_milli_def LTC4282_VIN_12V_def)
  have b1: "rsense ?b = 2000" by (simp add: state_24v_def)
  have b2: "regmap_read (map_r ?b) LTC4282_POWER_MIN = Inr 240"
    by (simp add: regmap_read_def state_24v_def with_reg_def quiet_map_def
        ltc4282_readable_reg_def reg_defs)
  have b3: "vfs_out ?b = ltc4282_vfs_milli ! unat LTC4282_VIN_24V"
    by (simp add: state_24v_def ltc4282_vfs_milli_def LTC4282_VIN_24V_def)
  from read_power_byte_code_240 [OF a1 a2] read_power_byte_code_240 [OF b1 b2]
    a1 a2 a3 b1 b2 b3
  show ?thesis by blast
qed

text \<open>
  C8 (as stated, refuted). GPIO2 is an active-low pin. With its status bit set in the
  status register, the value-get operation returns 1: it reports the register bit as it
  is and does not invert it.
\<close>

theorem gpio_get_active_low_not_inverted:
  "gpio_lookup (state_pins (with_reg quiet_map LTC4282_STATUS_MSB 0x40) [LTC4282_GPIO_2, 0, 0, 0]) 0
     = Inr (LTC4282_GPIO_2, ltc4282_gpios ! 1)
   \<and> \<not> active_high (ltc4282_gpios ! 1)
   \<and> regmap_read (with_reg quiet_map LTC4282_STATUS_MSB 0x40) LTC4282_STATUS_MSB = Inr 0x40
   \<and> (0x40 :: u32) AND in_mask (ltc4282_gpios ! 1) \<noteq> 0
   \<and> ltc4282_gpio_get (state_pins (with_reg quiet_map LTC4282_STATUS_MSB 0x40) [LTC4282_GPIO_2, 0, 0, 0]) 0
     = Inr 1"
  by (simp add: gpio_lookup_def state_pins_def state_12v_def with_reg_def quiet_map_def
      LTC4282_GPIO_NR_def ltc4282_gpios_def gpio_pin_defs ltc4282_gpio_get_def gpio_mask_defs
      regmap_read_def ltc4282_readable_reg_def reg_defs)

text \<open>
  C8 (amended). For every pin of the table reached through the logical offset, with a
  working bus and a requested level of 0 or 1: the value-set operation leaves the pin's
  output bit equal to the requested level for the active-high pin GPIO1 and equal to the
  inverted level for the active-low pins GPIO2, GPIO3 and ALERT; GPIO1 is the only
  active-high pin; and the value-get operation returns 1 exactly when the pin's bit of
  the status register is set, for every pin, without inversion.
\<close>

theorem gpio_set_inverts_get_reads_level:
  assumes lk: "gpio_lookup st offset = Inr (pin, gpio)"
    and bus: "\<not> nak (map_r st) (out_reg gpio)"
    and v: "val = 0 \<or> val = 1"
  shows "(\<exists>st' r. ltc4282_gpio_set st offset val = Inr st'
            \<and> regmap_read (map_r st') (out_reg gpio) = Inr r
            \<and> ((r AND out_mask gpio \<noteq> 0) = (if pin = LTC4282_GPIO_1 then val = 1 else val = 0)))
       \<and> active_high gpio = (pin = LTC4282_GPIO_1)
       \<and> ltc4282_gpio_get st offset =
           (case regmap_read (map_r st) LTC4282_STATUS_MSB of
              Inl e \<Rightarrow> Inl e
            | Inr r \<Rightarrow> Inr (if r AND in_mask gpio \<noteq> 0 then 1 else 0))"
proof -
  from gpio_entry_facts [OF lk] obtain k where k: "k < 8"
    and om: "out_mask gpio = push_bit k 1"
    and fp: "\<And>v. LTC4282_FIELD_PREP (out_mask gpio) v = push_bit k v AND push_bit k 1"
    and acc: "out_reg gpio \<le> LTC4282_RESERVED_3" "ltc4282_readable_reg (out_reg gpio)"
      "ltc4282_writable_reg (out_reg gpio)"
    and ah: "active_high gpio = (pin = LTC4282_GPIO_1)"
    and ir: "in_reg gpio = LTC4282_STATUS_MSB"
    by blast
  define val' :: u32 where
    "val' = (if \<not> active_high gpio then (if val = 0 then 1 else 0) else val)"
  have v': "val' = 0 \<or> val' = 1" using v by (auto simp: val'_def)
  from regmap_update_bits_single_bit [OF acc bus k, of "push_bit k val' AND push_bit k 1"]
  obtain m' r where u: "regmap_update_bits (map_r st) (out_reg gpio) (push_bit k 1)
        (push_bit k val' AND push_bit k 1) = Inr m'"
    and r: "regmap_read m' (out_reg gpio) = Inr r"
    and rb: "r AND push_bit k 1 = (push_bit k val' AND push_bit k 1) AND push_bit k 1"
    by blast
  have u2: "regmap_update_bits (map_r st) (out_reg gpio) (out_mask gpio)
              (LTC4282_FIELD_PREP (out_mask gpio) val') = Inr m'"
    unfolding fp unfolding om by (rule u)
  have s: "ltc4282_gpio_set st offset val = Inr (st\<lparr>map_r := m'\<rparr>)"
    unfolding ltc4282_gpio_set_def lk Let_def
    by (simp only: u2 [unfolded val'_def] sum.case prod.case)
  have k32: "k < 32" using k by simp
  have "r AND out_mask gpio = (push_bit k val' AND push_bit k 1) AND push_bit k 1"
    unfolding om by (rule rb)
  then have "(r AND out_mask gpio \<noteq> 0) = (val' = 1 \<and> k < 32)"
    by (simp only: bit0_test [OF v', of k])
  then have "(r AND out_mask gpio \<noteq> 0) = (val' = 1)"
    by (simp only: k32 simp_thms)
  also have "(val' = 1) = (if pin = LTC4282_GPIO_1 then val = 1 else val = 0)"
    using v by (auto simp: val'_def ah)
  finally have b: "(r AND out_mask gpio \<noteq> 0) = (if pin = LTC4282_GPIO_1 then val = 1 else val = 0)" .
  have g: "ltc4282_gpio_get st offset =
           (case regmap_read (map_r st) LTC4282_STATUS_MSB of
              Inl e \<Rightarrow> Inl e
            | Inr r \<Rightarrow> Inr (if r AND in_mask gpio \<noteq> 0 then 1 else 0))"
    by (simp add: ltc4282_gpio_get_def lk ir)
  from s r b have "\<exists>st' r. ltc4282_gpio_set st offset val = Inr st'
            \<and> regmap_read (map_r st') (out_reg gpio) = Inr r
            \<and> ((r AND out_mask gpio \<noteq> 0) = (if pin = LTC4282_GPIO_1 then val = 1 else val = 0))"
    by (intro exI [of _ "st\<lparr>map_r := m'\<rparr>"] exI [of _ r]) simp
  with ah g show ?thesis by blast
qed

theorem gpio_set_inverts_get_reads_level_witness:
  "gpio_lookup (state_pins quiet_map [LTC4282_GPIO_2, 0, 0, 0]) 0
     = Inr (LTC4282_GPIO_2, ltc4282_gpios ! 1)
   \<and> \<not> nak (map_r (state_pins quiet_map [LTC4282_GPIO_2, 0, 0, 0])) (out_reg (ltc4282_gpios ! 1))
   \<and> ((1 :: u32) = 0 \<or> (1 :: u32) = 1)
   \<and> (\<exists>st' r. ltc4282_gpio_set (state_pins quiet_map [LTC4282_GPIO_2, 0, 0, 0]) 0 1 = Inr st'
          \<and> regmap_read (map_r st') (out_reg (ltc4282_gpios ! 1)) = Inr r
          \<and> ((r AND out_mask (ltc4282_gpios ! 1) \<noteq> 0)
               = (if LTC4282_GPIO_2 = LTC4282_GPIO_1 then (1 :: u32) = 1 else (1 :: u32) = 0)))
   \<and> active_high (ltc4282_gpios ! 1) = (LTC4282_GPIO_2 = LTC4282_GPIO_1)
   \<and> ltc4282_gpio_get (state_pins quiet_map [LTC4282_GPIO_2, 0, 0, 0]) 0 =
        (case regmap_read (map_r (state_pins quiet_map [LTC4282_GPIO_2, 0, 0, 0]))
                LTC4282_STATUS_MSB of
           Inl e \<Rightarrow> Inl e
         | Inr r \<Rightarrow> Inr (if r AND in_mask (ltc4282_gpios ! 1) \<noteq> 0 then 1 else 0))"
proof -
  let ?st = "state_pins quiet_map [LTC4282_GPIO_2, 0, 0, 0]"
  have h1: "gpio_lookup ?st 0 = Inr (LTC4282_GPIO_2, ltc4282_gpios ! 1)"
    by (simp add: gpio_lookup_def state_pins_def state_12v_def LTC4282_GPIO_NR_def
        ltc4282_gpios_def gpio_pin_defs)
  have h2: "\<not> nak (map_r ?st) (out_reg (ltc4282_gpios ! 1))"
    by (simp add: state_pins_def state_12v_def quiet_map_def)
  have h3: "(1 :: u32) = 0 \<or> (1 :: u32) = 1" by simp
  from gpio_set_inverts_get_reads_level [OF h1 h2 h3] h1 h2 h3 show ?thesis
    by blast
qed

text \<open>
  C5. A status register that reports stable on the third poll attempt makes the power-on
  sequence succeed after three attempts. A status register that never reports stable
  makes the loop run six attempts, after which the counter has wrapped around to a
  nonzero value and the power-on sequence returns success: no timeout error is returned,
  and the attempts are six, not five. Only a status register that reports stable on the
  sixth attempt makes the sequence fail with \<open>ETIMEDOUT\<close>.
\<close>

theorem power_on_never_stable_returns_success:
  "ltc4282_power_on None (\<lambda>i. if i < 2 then None else Some ETIMEDOUT) = (None, 3)
   \<and> ltc4282_power_on None (\<lambda>_. None) = (None, 6)
   \<and> power_on_loop (\<lambda>_. None) 0 5 = (None, - 1, 6)
   \<and> ltc4282_power_on None (\<lambda>i. if i < 5 then None else Some ETIMEDOUT) = (Some ETIMEDOUT, 6)"
  by code_simp

text \<open>
  C3. Whenever the requested value is below the full scale, the byte-width voltage write
  reaches the register write with a local that was never assigned: the rounded code
  \<open>round(val * 255 / fs)\<close> is computed and dropped, and no defined code is written. At
  or above the full scale the code 255 is written.
\<close>

theorem write_voltage_byte_below_full_scale:
  assumes "sint val < sint (ucast fs :: u64)"
  shows "write_voltage_byte_in fs val = None
       \<and> ltc4282_write_voltage_byte st reg fs val = Inl UNINITIALIZED"
  using assms by (simp add: write_voltage_byte_in_def ltc4282_write_voltage_byte_def)

theorem write_voltage_byte_below_full_scale_witness:
  "sint (100 :: u64) < sint (ucast (1280 :: u32) :: u64)
   \<and> write_voltage_byte_in 1280 100 = None
   \<and> ltc4282_write_voltage_byte (state_12v quiet_map) LTC4282_VGPIO_MAX 1280 100
       = Inl UNINITIALIZED"
proof -
  have h: "sint (100 :: u64) < sint (ucast (1280 :: u32) :: u64)" by simp
  from write_voltage_byte_below_full_scale [OF h] h show ?thesis by blast
qed

text \<open>
  C4 (as stated, refuted). With the 12 V class, a sense resistance of 2000, the energy
  code \<open>2 ^ 41\<close> and the elapsed-time counter 1, the energy is 28,587,302,322,176
  microjoules; its product with 1,000,000 overflows 64 bits, the fallback order of
  operations is taken, and the average power returned is 436,214,272,000,000, not
  \<open>round(energy * 1,000,000 / (counter * 65535)) = 436,214,272,101,564\<close>.
\<close>

theorem read_power_average_fallback_differs:
  "ltc4282_read_energy (state_12v (state_energy [0, 0, 0, 0, 0, 2] [1, 0, 0, 0]))
     = Inr 28587302322176
   \<and> regmap_bulk_read (map_r (state_12v (state_energy [0, 0, 0, 0, 0, 2] [1, 0, 0, 0])))
        LTC4282_TIME_COUNTER 4 = Inr [1, 0, 0, 0]
   \<and> le32_to_cpu [1, 0, 0, 0] = 1
   \<and> ltc4282_read_power_average (state_12v (state_energy [0, 0, 0, 0, 0, 2] [1, 0, 0, 0]))
     = Inr 436214272000000
   \<and> round_div (28587302322176 * 1000000) (1 * 65535) = 436214272101564"
proof -
  let ?st = "state_12v (state_energy [0, 0, 0, 0, 0, 2] [1, 0, 0, 0])"
  have e: "ltc4282_read_energy ?st = Inr 28587302322176"
    by (simp add: energy_defs state_energy_bulk6 state_12v_def)
  have c: "regmap_bulk_read (map_r ?st) LTC4282_TIME_COUNTER 4 = Inr [1, 0, 0, 0]"
    by (simp add: state_energy_bulk4 state_12v_def)
  have l: "le32_to_cpu [1, 0, 0, 0] = 1" by (simp add: le32_to_cpu_def)
  have a: "ltc4282_read_power_average ?st = Inr 436214272000000"
    by (simp add: ltc4282_read_power_average_def e c l)
      (simp add: check_mul_overflow_def MICRO_def DIV_ROUND_CLOSEST_ULL_def
        LTC4282_TCONV_US_def l)
  have r: "round_div (28587302322176 * 1000000) (1 * 65535) = 436214272101564"
    by (simp add: round_div_def)
  from e c l a r show ?thesis by simp
qed

text \<open>
  C4 (amended). When the energy and the elapsed-time counter are read successfully:
  if the counter is 0 the average-power operation returns success with result exactly 0;
  for a nonzero counter of at most 65537, when \<open>energy * 1,000,000\<close> with its rounding
  term fits 64 bits, it returns \<open>round(energy * 1,000,000 / (65535 * counter))\<close>; and
  when \<open>energy * 1,000,000\<close> overflows 64 bits it returns, for every nonzero counter,
  the fallback value \<open>round(round(energy / 65535) * 1,000,000 / counter)\<close>, provided the
  intermediate values fit 64 bits.
\<close>

theorem read_power_average_cases:
  assumes en: "ltc4282_read_energy st = Inr energy"
    and ct: "regmap_bulk_read (map_r st) LTC4282_TIME_COUNTER 4 = Inr cnt"
  shows "(le32_to_cpu cnt = 0 \<longrightarrow> ltc4282_read_power_average st = Inr 0)
       \<and> (le32_to_cpu cnt \<noteq> 0 \<and> unat (le32_to_cpu cnt) \<le> 65537
            \<and> unat energy * 1000000 + 65535 * unat (le32_to_cpu cnt) div 2 < 2 ^ 64
          \<longrightarrow> (\<exists>v. ltc4282_read_power_average st = Inr v
                 \<and> unat v = round_div (unat energy * 1000000)
                              (65535 * unat (le32_to_cpu cnt))))
       \<and> (le32_to_cpu cnt \<noteq> 0 \<and> 2 ^ 64 \<le> unat energy * 1000000
            \<and> unat energy + 32767 < 2 ^ 64
            \<and> round_div (unat energy) 65535 * 1000000 + unat (le32_to_cpu cnt) div 2 < 2 ^ 64
          \<longrightarrow> (\<exists>v. ltc4282_read_power_average st = Inr v
                 \<and> unat v = round_div (round_div (unat energy) 65535 * 1000000)
                              (unat (le32_to_cpu cnt))))"
proof (intro conjI impI)
  assume "le32_to_cpu cnt = 0"
  then show "ltc4282_read_power_average st = Inr 0"
    by (simp add: ltc4282_read_power_average_def en ct)
next
  define c where "c = le32_to_cpu cnt"
  assume a: "le32_to_cpu cnt \<noteq> 0 \<and> unat (le32_to_cpu cnt) \<le> 65537
    \<and> unat energy * 1000000 + 65535 * unat (le32_to_cpu cnt) div 2 < 2 ^ 64"
  then have c0: "c \<noteq> 0" and c1: "unat c \<le> 65537"
    and c2: "unat energy * 1000000 + 65535 * unat c div 2 < 2 ^ 64"
    by (simp_all add: c_def)
  have nov: "unat energy * unat MICRO < 2 ^ 64" using c2 by (simp add: unat_MICRO)
  have d: "unat (ucast (LTC4282_TCONV_US * c) :: u64) = 65535 * unat c"
    using c1 by (rule tconv_times_count)
  have cpos: "0 < unat c" using c0 by (simp add: unat_gt_0)
  have x: "unat (energy * MICRO) = unat energy * 1000000"
    using check_mul_overflow_no(2) [OF nov] by (simp add: unat_MICRO)
  have "\<exists>v. DIV_ROUND_CLOSEST_ULL (energy * MICRO) (ucast (LTC4282_TCONV_US * c)) = Inr v
          \<and> unat v = round_div (unat (energy * MICRO)) (unat (ucast (LTC4282_TCONV_US * c) :: u64))"
  proof (rule DIV_ROUND_CLOSEST_ULL_exact)
    show "unat (energy * MICRO) + unat (ucast (LTC4282_TCONV_US * c) :: u64) div 2 < 2 ^ 64"
      using c2 by (simp add: x d)
    show "0 < unat (ucast (LTC4282_TCONV_US * c) :: u64)" using cpos by (simp add: d)
    have "65535 * unat c \<le> 65535 * 65537" using c1 by simp
    then show "unat (ucast (LTC4282_TCONV_US * c) :: u64) < 2 ^ 32" by (simp add: d)
  qed
  then obtain v where v: "DIV_ROUND_CLOSEST_ULL (energy * MICRO) (ucast (LTC4282_TCONV_US * c)) = Inr v"
    and uv: "unat v = round_div (unat energy * 1000000) (65535 * unat c)"
    by (auto simp: x d)
  have "ltc4282_read_power_average st = Inr v"
    using c0 v by (simp add: ltc4282_read_power_average_def en ct check_mul_overflow_no(1) [OF nov]
        c_def [symmetric])
  with uv show "\<exists>v. ltc4282_read_power_average st = Inr v
      \<and> unat v = round_div (unat energy * 1000000) (65535 * unat (le32_to_cpu cnt))"
    by (auto simp: c_def)
next
  define c where "c = le32_to_cpu cnt"
  assume a: "le32_to_cpu cnt \<noteq> 0 \<and> 2 ^ 64 \<le> unat energy * 1000000
    \<and> unat energy + 32767 < 2 ^ 64
    \<and> round_div (unat energy) 65535 * 1000000 + unat (le32_to_cpu cnt) div 2 < 2 ^ 64"
  then have c0: "c \<noteq> 0" and ov: "2 ^ 64 \<le> unat energy * 1000000"
    and e1: "unat energy + 32767 < 2 ^ 64"
    and e2: "round_div (unat energy) 65535 * 1000000 + unat c div 2 < 2 ^ 64"
    by (simp_all add: c_def)
  have ovf: "fst (check_mul_overflow energy MICRO)"
    using ov by (intro check_mul_overflow_yes) (simp add: unat_MICRO)
  have cpos: "0 < unat c" using c0 by (simp add: unat_gt_0)
  have ut: "unat (ucast LTC4282_TCONV_US :: u64) = 65535"
    by (simp add: LTC4282_TCONV_US_def)
  have "\<exists>t. DIV_ROUND_CLOSEST_ULL energy (ucast LTC4282_TCONV_US) = Inr t
          \<and> unat t = round_div (unat energy) (unat (ucast LTC4282_TCONV_US :: u64))"
    using e1 by (intro DIV_ROUND_CLOSEST_ULL_exact) (simp_all add: ut)
  then obtain t where t: "DIV_ROUND_CLOSEST_ULL energy (ucast LTC4282_TCONV_US) = Inr t"
    and utt: "unat t = round_div (unat energy) 65535"
    by (auto simp: ut)
  have tm: "unat (t * MICRO) = round_div (unat energy) 65535 * 1000000"
  proof -
    have "unat t * unat MICRO < 2 ^ 64" using e2 by (simp add: utt unat_MICRO)
    from check_mul_overflow_no(2) [OF this] show ?thesis by (simp add: utt unat_MICRO)
  qed
  have uc: "unat (ucast c :: u64) = unat c" by (simp add: unat_ucast_widen)
  have "\<exists>v. DIV_ROUND_CLOSEST_ULL (t * MICRO) (ucast c) = Inr v
          \<and> unat v = round_div (unat (t * MICRO)) (unat (ucast c :: u64))"
  proof (rule DIV_ROUND_CLOSEST_ULL_exact)
    show "unat (t * MICRO) + unat (ucast c :: u64) div 2 < 2 ^ 64"
      using e2 by (simp add: tm uc)
    show "0 < unat (ucast c :: u64)" using cpos by (simp add: uc)
    have "unat c < 2 ^ 32" using unsigned_less [of c] by simp
    then show "unat (ucast c :: u64) < 2 ^ 32" by (simp add: uc)
  qed
  then obtain v where v: "DIV_ROUND_CLOSEST_ULL (t * MICRO) (ucast c) = Inr v"
    and uv: "unat v = round_div (round_div (unat energy) 65535 * 1000000) (unat c)"
    by (auto simp: tm uc)
  obtain temp where cm: "check_mul_overflow energy MICRO = (True, temp)"
    using ovf by (cases "check_mul_overflow energy MICRO") simp
  have "ltc4282_read_power_average st = Inr v"
    using c0 v t
    by (simp add: ltc4282_read_power_average_def en ct c_def [symmetric] cm)
  with uv show "\<exists>v. ltc4282_read_power_average st = Inr v
      \<and> unat v = round_div (round_div (unat energy) 65535 * 1000000) (unat (le32_to_cpu cnt))"
    by (auto simp: c_def)
qed

theorem read_power_average_cases_witness:
  "ltc4282_read_energy (state_12v (state_energy [0, 0, 0, 0, 0, 0] [0, 0, 0, 0])) = Inr 0
   \<and> regmap_bulk_read (map_r (state_12v (state_energy [0, 0, 0, 0, 0, 0] [0, 0, 0, 0])))
        LTC4282_TIME_COUNTER 4 = Inr [0, 0, 0, 0]
   \<and> le32_to_cpu [0, 0, 0, 0] = 0
   \<and> ltc4282_read_power_average (state_12v (state_energy [0, 0, 0, 0, 0, 0] [0, 0, 0, 0]))
        = Inr 0
   \<and> ltc4282_read_energy (state_12v (state_energy [232, 3, 0, 0, 0, 0] [3, 0, 0, 0]))
        = Inr 13000
   \<and> regmap_bulk_read (map_r (state_12v (state_energy [232, 3, 0, 0, 0, 0] [3, 0, 0, 0])))
        LTC4282_TIME_COUNTER 4 = Inr [3, 0, 0, 0]
   \<and> le32_to_cpu [3, 0, 0, 0] = 3
   \<and> (\<exists>v. ltc4282_read_power_average
              (state_12v (state_energy [232, 3, 0, 0, 0, 0] [3, 0, 0, 0])) = Inr v
          \<and> unat v = 66122)
   \<and> ltc4282_read_energy (state_12v (state_energy [0, 0, 0, 0, 0, 2] [1, 0, 0, 0]))
        = Inr 28587302322176
   \<and> regmap_bulk_read (map_r (state_12v (state_energy [0, 0, 0, 0, 0, 2] [1, 0, 0, 0])))
        LTC4282_TIME_COUNTER 4 = Inr [1, 0, 0, 0]
   \<and> le32_to_cpu [1, 0, 0, 0] = 1
   \<and> (\<exists>v. ltc4282_read_power_average
              (state_12v (state_energy [0, 0, 0, 0, 0, 2] [1, 0, 0, 0])) = Inr v
          \<and> unat v = 436214272000000)"
proof -
  let ?s0 = "state_12v (state_energy [0, 0, 0, 0, 0, 0] [0, 0, 0, 0])"
  let ?s1 = "state_12v (state_energy [232, 3, 0, 0, 0, 0] [3, 0, 0, 0])"
  let ?s2 = "state_12v (state_energy [0, 0, 0, 0, 0, 2] [1, 0, 0, 0])"
  have e0: "ltc4282_read_energy ?s0 = Inr 0"
    by (simp add: energy_defs state_energy_bulk6 state_12v_def)
  have c0: "regmap_bulk_read (map_r ?s0) LTC4282_TIME_COUNTER 4 = Inr [0, 0, 0, 0]"
    by (simp add: state_energy_bulk4 state_12v_def)
  have l0: "le32_to_cpu [0, 0, 0, 0] = 0" by (simp add: le32_to_cpu_def)
  have e1: "ltc4282_read_energy ?s1 = Inr 13000"
    by (simp add: energy_defs state_energy_bulk6 state_12v_def)
  have c1: "regmap_bulk_read (map_r ?s1) LTC4282_TIME_COUNTER 4 = Inr [3, 0, 0, 0]"
    by (simp add: state_energy_bulk4 state_12v_def)
  have l1: "le32_to_cpu [3, 0, 0, 0] = 3" by (simp add: le32_to_cpu_def)
  have e2: "ltc4282_read_energy ?s2 = Inr 28587302322176"
    by (simp add: energy_defs state_energy_bulk6 state_12v_def)
  have c2: "regmap_bulk_read (map_r ?s2) LTC4282_TIME_COUNTER 4 = Inr [1, 0, 0, 0]"
    by (simp add: state_energy_bulk4 state_12v_def)
  have l2: "le32_to_cpu [1, 0, 0, 0] = 1" by (simp add: le32_to_cpu_def)
  have r0: "ltc4282_read_power_average ?s0 = Inr 0"
    using read_power_average_cases [OF e0 c0] l0 by simp
  have r1: "\<exists>v. ltc4282_read_power_average ?s1 = Inr v \<and> unat v = 66122"
    using read_power_average_cases [OF e1 c1] by (simp add: l1 round_div_def)
  have r2: "\<exists>v. ltc4282_read_power_average ?s2 = Inr v \<and> unat v = 436214272000000"
    using read_power_average_cases [OF e2 c2] by (simp add: l2 round_div_def)
  from e0 c0 l0 r0 e1 c1 l1 r1 e2 c2 l2 r2 show ?thesis by blast
qed

text \<open>
  C1 (as stated, refuted). With the 12 V class, a sense resistance of 2000 and the
  energy code 100000 the full-precision multiplication does not overflow; the fast path
  gives 1,300,020 microjoules and the fallback path, which divides the constant factor by
  65535 first, gives 1,300,000: the two differ by 20 units, not by at most 1.
\<close>

theorem energy_fast_fallback_differ_by_20:
  "\<not> fst (check_mul_overflow (energy_factor (state_12v quiet_map)) 100000)
   \<and> read_energy_fast (state_12v quiet_map) 100000 = Inr 1300020
   \<and> read_energy_fallback (state_12v quiet_map) 100000 = Inr 1300000
   \<and> ltc4282_read_energy (state_12v (state_energy [160, 134, 1, 0, 0, 0] [0, 0, 0, 0]))
       = Inr 1300020"
  by (simp add: energy_defs state_energy_bulk6 state_12v_def)

text \<open>
  C1 (amended). For every energy code, every full-scale voltage and every sense
  resistance from 1 to 65537 for which the full-precision product with its rounding
  term fits 64 bits, both paths of the energy conversion return a value: the fast path
  \<open>round(K * code / (65535 * rsense))\<close> and the fallback path
  \<open>round(round(K / 65535) * code / rsense)\<close> with \<open>K = 102400 * full_scale\<close>, and the two
  differ by at most \<open>32767 * (code + 1) div (65535 * rsense) + 1\<close>, about
  \<open>code / (2 * rsense) + 1\<close>, units in the microjoule output.
\<close>

theorem energy_fast_fallback_bounded:
  assumes rpos: "rsense st \<noteq> 0"
    and rsmall: "unat (rsense st) \<le> 65537"
    and nov: "unat (energy_factor st) * unat energy + 65535 * unat (rsense st) div 2 < 2 ^ 64"
  shows "\<exists>f b. read_energy_fast st energy = Inr f \<and> read_energy_fallback st energy = Inr b
           \<and> \<not> fst (check_mul_overflow (energy_factor st) energy)
           \<and> unat (energy_factor st) = 102400 * unat (vfs_out st)
           \<and> unat f = round_div (unat (energy_factor st) * unat energy)
                         (65535 * unat (rsense st))
           \<and> unat b = round_div (round_div (unat (energy_factor st)) 65535 * unat energy)
                         (unat (rsense st))
           \<and> unat f \<le> unat b + 32767 * (unat energy + 1) div (65535 * unat (rsense st)) + 1
           \<and> unat b \<le> unat f + 32767 * (unat energy + 1) div (65535 * unat (rsense st)) + 1"
proof -
  define K where "K = unat (energy_factor st)"
  define e where "e = unat energy"
  define r where "r = unat (rsense st)"
  have r0: "0 < r" using rpos by (simp add: r_def unat_gt_0)
  have nov': "K * e + 65535 * r div 2 < 2 ^ 64" using nov by (simp add: K_def e_def r_def)
  then have ke: "K * e < 2 ^ 64" by linarith
  have nover: "\<not> fst (check_mul_overflow (energy_factor st) energy)"
    using ke by (simp add: check_mul_overflow_def K_def e_def)
  have x: "unat (energy_factor st * energy) = K * e"
    using check_mul_overflow_no(2) [of "energy_factor st" energy] ke by (simp add: K_def e_def)
  have d: "unat (ucast ((ucast U16_MAX :: u32) * rsense st) :: u64) = 65535 * r"
    using rsmall unfolding r_def by (rule u16_max_times)
  have "\<exists>f. read_energy_fast st energy = Inr f
          \<and> unat f = round_div (unat (energy_factor st * energy))
                (unat (ucast ((ucast U16_MAX :: u32) * rsense st) :: u64))"
    unfolding read_energy_fast_def
  proof (rule DIV_ROUND_CLOSEST_ULL_exact)
    show "unat (energy_factor st * energy)
            + unat (ucast ((ucast U16_MAX :: u32) * rsense st) :: u64) div 2 < 2 ^ 64"
      using nov' by (simp add: x d)
    show "0 < unat (ucast ((ucast U16_MAX :: u32) * rsense st) :: u64)"
      using r0 by (simp add: d)
    have "65535 * r \<le> 65535 * 65537" using rsmall by (simp add: r_def)
    then show "unat (ucast ((ucast U16_MAX :: u32) * rsense st) :: u64) < 2 ^ 32"
      by (simp add: d)
  qed
  then obtain f where f: "read_energy_fast st energy = Inr f"
    and uf: "unat f = round_div (K * e) (65535 * r)"
    by (auto simp: x d)
  have "unat (vfs_out st) < 2 ^ 16" using unsigned_less [of "vfs_out st"] by simp
  then have kb: "K \<le> 102400 * 65535"
    by (simp add: K_def unat_energy_factor)
  have um: "unat (ucast U16_MAX :: u64) = 65535" by (simp add: U16_MAX_def)
  have "\<exists>t. DIV_ROUND_CLOSEST (energy_factor st) (ucast U16_MAX) = Inr t
          \<and> unat t = round_div (unat (energy_factor st)) (unat (ucast U16_MAX :: u64))"
    using kb by (intro DIV_ROUND_CLOSEST_exact) (simp_all add: um K_def)
  then obtain t where t: "DIV_ROUND_CLOSEST (energy_factor st) (ucast U16_MAX) = Inr t"
    and ut: "unat t = round_div K 65535"
    by (auto simp: um K_def)
  have tle: "unat t \<le> K" unfolding ut by (rule round_div_factor_bounds(3))
  have "unat t * e \<le> K * e" using tle by (rule mult_le_mono1)
  then have te: "unat t * e < 2 ^ 64" using ke by linarith
  have y: "unat (t * energy) = round_div K 65535 * e"
    using check_mul_overflow_no(2) [of t energy] te by (simp add: e_def ut)
  have ur: "unat (ucast (rsense st) :: u64) = r" by (simp add: r_def unat_ucast_widen)
  have rh: "r div 2 \<le> 65535 * r div 2" by (rule div_le_mono) simp
  have "\<exists>b. DIV_ROUND_CLOSEST_ULL (t * energy) (ucast (rsense st)) = Inr b
          \<and> unat b = round_div (unat (t * energy)) (unat (ucast (rsense st) :: u64))"
  proof (rule DIV_ROUND_CLOSEST_ULL_exact)
    have "round_div K 65535 * e \<le> K * e"
      using round_div_factor_bounds(3) by (rule mult_le_mono1)
    then show "unat (t * energy) + unat (ucast (rsense st) :: u64) div 2 < 2 ^ 64"
      unfolding y ur using nov' rh by linarith
    show "0 < unat (ucast (rsense st) :: u64)" using r0 by (simp add: ur)
    have "r < 2 ^ 32" using unsigned_less [of "rsense st"] by (simp add: r_def)
    then show "unat (ucast (rsense st) :: u64) < 2 ^ 32" by (simp add: ur)
  qed
  then obtain b where b: "DIV_ROUND_CLOSEST_ULL (t * energy) (ucast (rsense st)) = Inr b"
    and ub: "unat b = round_div (round_div K 65535 * e) r"
    by (auto simp: y ur)
  have fb: "read_energy_fallback st energy = Inr b"
    by (simp add: read_energy_fallback_def t b)
  have c1: "unat f \<le> unat b + 32767 * (e + 1) div (65535 * r) + 1"
    unfolding uf ub using r0 by (rule round_paths_close(1))
  have c2: "unat b \<le> unat f + 32767 * (e + 1) div (65535 * r) + 1"
    unfolding uf ub using r0 by (rule round_paths_close(2))
  have kv: "unat (energy_factor st) = 102400 * unat (vfs_out st)" by (rule unat_energy_factor)
  from f fb nover kv uf ub c1 c2 show ?thesis
    unfolding K_def e_def r_def by blast
qed

theorem energy_fast_fallback_bounded_witness:
  "rsense (state_12v quiet_map) \<noteq> 0
   \<and> unat (rsense (state_12v quiet_map)) \<le> 65537
   \<and> unat (energy_factor (state_12v quiet_map)) * unat (100000 :: u64)
        + 65535 * unat (rsense (state_12v quiet_map)) div 2 < 2 ^ 64
   \<and> (\<exists>f b. read_energy_fast (state_12v quiet_map) 100000 = Inr f
          \<and> read_energy_fallback (state_12v quiet_map) 100000 = Inr b
          \<and> unat f \<le> unat b + 25 \<and> unat b \<le> unat f + 25)"
proof -
  let ?st = "state_12v quiet_map"
  have h1: "rsense ?st \<noteq> 0" by (simp add: state_12v_def)
  have h2: "unat (rsense ?st) \<le> 65537" by (simp add: state_12v_def)
  have h3: "unat (energy_factor ?st) * unat (100000 :: u64)
              + 65535 * unat (rsense ?st) div 2 < 2 ^ 64"
    by (simp add: state_12v_def energy_factor_def DECA_def)
  have n: "32767 * (unat (100000 :: u64) + 1) div (65535 * unat (rsense ?st)) = 24"
    by (simp add: state_12v_def)
  from energy_fast_fallback_bounded [OF h1 h2 h3]
  obtain f b where "read_energy_fast ?st 100000 = Inr f"
    and "read_energy_fallback ?st 100000 = Inr b"
    and "unat f \<le> unat b + 32767 * (unat (100000 :: u64) + 1) div (65535 * unat (rsense ?st)) + 1"
    and "unat b \<le> unat f + 32767 * (unat (100000 :: u64) + 1) div (65535 * unat (rsense ?st)) + 1"
    by blast
  then have "\<exists>f b. read_energy_fast ?st 100000 = Inr f
          \<and> read_energy_fallback ?st 100000 = Inr b
          \<and> unat f \<le> unat b + 25 \<and> unat b \<le> unat f + 25"
    unfolding n by (simp add: add.assoc)
  with h1 h2 h3 show ?thesis by blast
qed





end
